theory Spec2Isabelle
  imports Main "HOL-Library.Word"
begin

unbundle bit_operations_syntax

section \<open>The block-tree terms dictionary reader\<close>

text \<open>
  A shallow embedding of the Go file that holds \<open>BlockTreeTermsReader\<close>, \<open>FieldReader\<close>,
  \<open>SegmentTermsEnum\<close> and \<open>segmentTermsEnumFrame\<close> (package \<open>index\<close>).

  Go's multiple results \<open>(v, err)\<close> are pairs \<open>(v, err)\<close> with \<open>err :: error option\<close>
  (\<open>None\<close> is \<open>nil\<close>); a pointer or interface value that may be \<open>nil\<close> is an
  \<open>option\<close>; a panic is the error \<open>Panic\<close>. \<open>int32\<close> and \<open>int64\<close> are words, read
  with \<open>sint\<close> where the source compares them; Go's \<open>int\<close> is \<open>int\<close>.
\<close>

subsection \<open>Constants\<close>

type_synonym byte = "8 word"
type_synonym int32 = "32 word"
type_synonym int64 = "64 word"

definition BTT_OUTPUT_FLAGS_NUM_BITS :: nat where
  "BTT_OUTPUT_FLAGS_NUM_BITS = 2"

definition BTT_EXTENSION :: string where
  "BTT_EXTENSION = ''tim''"

definition BTT_CODEC_NAME :: string where
  "BTT_CODEC_NAME = ''BLOCK_TREE_TERMS_DICT''"

definition BTT_VERSION_START :: int where
  "BTT_VERSION_START = 0"

definition BTT_VERSION_APPEND_ONLY :: int where
  "BTT_VERSION_APPEND_ONLY = 1"

definition BTT_VERSION_CURRENT :: int where
  "BTT_VERSION_CURRENT = BTT_VERSION_APPEND_ONLY"

definition BTT_INDEX_EXTENSION :: string where
  "BTT_INDEX_EXTENSION = ''tip''"

definition BTT_INDEX_CODEC_NAME :: string where
  "BTT_INDEX_CODEC_NAME = ''BLOCK_TREE_TERMS_INDEX''"

definition BTT_INDEX_VERSION_START :: int where
  "BTT_INDEX_VERSION_START = 0"

definition BTT_INDEX_VERSION_APPEND_ONLY :: int where
  "BTT_INDEX_VERSION_APPEND_ONLY = 1"

definition BTT_INDEX_VERSION_CURRENT :: int where
  "BTT_INDEX_VERSION_CURRENT = BTT_INDEX_VERSION_APPEND_ONLY"

subsection \<open>Errors\<close>

text \<open>
  One constructor for each \<open>errors.New\<close> of the source, carrying the values its message
  formats (the \<open>resource=\<close> part, which prints the input, is left out); \<open>StoreError\<close> for
  an error produced by a package outside the source file; \<open>Panic\<close> for a run-time panic.
\<close>

datatype error =
    StoreError string
  | InvalidNumFields int32
  | InvalidDocCount int32 int32
  | InvalidSumDocFreq int64 int32
  | InvalidSumTotalTermFreq int64 int64
  | DuplicateField string
  | MixmatchedVersion int int
  | Panic string

subsection \<open>The store: inputs, directory, postings reader\<close>

text \<open>
  Modelled from the spec: package \<open>store\<close> (\<open>IndexInput\<close>, \<open>Directory\<close>) is not among
  the sources. The spec calls it a random-access input abstraction supporting seek, clone
  and length queries. An input is the bytes of its file, a file pointer, whether it has
  been closed and what its \<open>Close\<close> returns. Inputs are shared mutable objects, so they
  live in a table indexed by handle, and the source's \<open>store.IndexInput\<close> values are
  handles into it.
\<close>

record IndexInput =
  data :: "byte list"
  pos :: int64
  closed :: bool
  closeResult :: "error option"

type_synonym handle = nat
type_synonym heap = "IndexInput list"

record dirFile =
  content :: "byte list"
  closeErr :: "error option"

type_synonym Directory = "string \<Rightarrow> dirFile option"

definition OpenInput :: "Directory \<Rightarrow> string \<Rightarrow> heap \<Rightarrow> (handle option \<times> error option) \<times> heap" where
  "OpenInput dir name H =
     (case dir name of
        None \<Rightarrow> ((None, Some (StoreError ''no such file'')), H)
      | Some f \<Rightarrow>
          ((Some (length H), None),
           H @ [\<lparr>data = content f, pos = 0, closed = False, closeResult = closeErr f\<rparr>]))"

definition Seek :: "handle \<Rightarrow> int64 \<Rightarrow> heap \<Rightarrow> heap" where
  "Seek h p H = H[h := (H ! h)\<lparr>pos := p\<rparr>]"

definition Length :: "handle \<Rightarrow> heap \<Rightarrow> int64" where
  "Length h H = word_of_nat (length (data (H ! h)))"

definition CloseInput :: "handle \<Rightarrow> heap \<Rightarrow> error option \<times> heap" where
  "CloseInput h H = (closeResult (H ! h), H[h := (H ! h)\<lparr>closed := True\<rparr>])"

text \<open>
  A read method of an input (\<open>ReadVInt\<close>, \<open>ReadVLong\<close>, \<open>ReadLong\<close>, \<open>ReadBytes\<close>,
  \<open>codec.CheckHeader\<close>) is a decoder: from the bytes and the file pointer to the Go result
  pair and the new file pointer. \<open>readWith\<close> runs a decoder on the input behind a handle.
\<close>

type_synonym 'a decoder = "byte list \<Rightarrow> int64 \<Rightarrow> ('a \<times> error option) \<times> int64"

definition readWith :: "'a decoder \<Rightarrow> handle \<Rightarrow> heap \<Rightarrow> ('a \<times> error option) \<times> heap" where
  "readWith dec h H =
     (case dec (data (H ! h)) (pos (H ! h)) of
        (res, p) \<Rightarrow> (res, H[h := (H ! h)\<lparr>pos := p\<rparr>]))"

text \<open>
  Modelled from the spec: \<open>BlockTermState\<close> and the interface \<open>PostingsReaderBase\<close> are
  not among the sources. Of the term state the source uses the field \<open>totalTermFreq\<close>.
  The spec says of the postings collaborator that \<open>Init\<close> reads nothing and only records
  the handle, that \<open>NewTermState\<close> returns an opaque state, and that it is closed with
  the reader.
\<close>

record BlockTermState =
  totalTermFreq :: int64

record PostingsReaderBase =
  termsIn :: "handle option"
  postingsClosed :: bool
  postingsCloseResult :: "error option"
  NewTermState :: "BlockTermState option"

definition Init :: "handle option \<Rightarrow> PostingsReaderBase \<Rightarrow> PostingsReaderBase" where
  "Init h pr = pr\<lparr>termsIn := h\<rparr>"

subsection \<open>What the source takes from other packages\<close>

text \<open>
  The decoders of package \<open>store\<close>, \<open>codec.CheckHeader\<close>, \<open>util.SegmentFileName\<close>,
  \<open>util.LoadFST\<close> and the constant \<open>INDEX_OPT_DOCS_ONLY\<close> are not among the sources:
  every function below takes them as the parameter \<open>X\<close>, and every theorem holds for any
  choice of them. \<open>LoadFST\<close> reads from a clone of the index input (an independent cursor),
  so it gets the bytes and the offset the clone was sought to.
\<close>

typedecl FST

record externals =
  SegmentFileName :: "string \<Rightarrow> string \<Rightarrow> string \<Rightarrow> string"
  CheckHeader :: "string \<Rightarrow> int \<Rightarrow> int \<Rightarrow> int32 decoder"
  ReadVInt :: "int32 decoder"
  ReadVLong :: "int64 decoder"
  ReadLong :: "int64 decoder"
  ReadBytes :: "nat \<Rightarrow> (byte list) decoder"
  LoadFST :: "byte list \<Rightarrow> int64 \<Rightarrow> FST option \<times> error option"
  INDEX_OPT_DOCS_ONLY :: int

text \<open>
  Modelled from the spec: \<open>FieldInfo\<close>, \<open>FieldInfos\<close> and \<open>SegmentInfo\<close> are not among
  the sources. The source reads \<open>fieldInfo.name\<close>, \<open>fieldInfo.indexOptions\<close>,
  \<open>fieldInfos.byNumber[field]\<close>, \<open>info.name\<close> and \<open>info.docCount\<close> (here \<open>segName\<close> and
  \<open>segDocCount\<close>). A Go map lookup of a missing key gives the zero value.
\<close>

record FieldInfo =
  name :: string
  indexOptions :: int

record FieldInfos =
  byNumber :: "int32 \<Rightarrow> FieldInfo option"

record SegmentInfo =
  segName :: string
  segDocCount :: int32

definition zeroFieldInfo :: FieldInfo where
  "zeroFieldInfo = \<lparr>name = [], indexOptions = 0\<rparr>"

definition byNumberAt :: "FieldInfos \<Rightarrow> int32 \<Rightarrow> FieldInfo" where
  "byNumberAt fis field = (case byNumber fis field of None \<Rightarrow> zeroFieldInfo | Some fi \<Rightarrow> fi)"

subsection \<open>BlockTreeTermsReader and FieldReader\<close>

text \<open>
  The two structs refer to each other (\<open>FieldReader.owner\<close> is a
  \<open>*BlockTreeTermsReader\<close>, \<open>BlockTreeTermsReader.fields\<close> is a
  \<open>map[string]FieldReader\<close>), so they are one mutually recursive datatype; the selectors
  are the fields in the source's order (\<open>inp\<close> is the field \<open>in\<close>).
\<close>

datatype FieldReader =
  FieldReader
    (owner: "BlockTreeTermsReader option")
    (numTerms: int64)
    (fieldInfo: FieldInfo)
    (sumTotalTermFreq: int64)
    (sumDocFreq: int64)
    (docCount: int32)
    (indexStartFP: int64)
    (rootBlockFP: int64)
    (rootCode: "byte list")
    (index: "FST option")
and BlockTreeTermsReader =
  BlockTreeTermsReader
    (inp: "handle option")
    (postingsReader: "PostingsReaderBase option")
    (fields: "string \<Rightarrow> FieldReader option")
    (dirOffset: int64)
    (indexDirOffset: int64)
    (segment: string)
    (version: int)

definition set_rootBlockFP :: "int64 \<Rightarrow> FieldReader \<Rightarrow> FieldReader" where
  "set_rootBlockFP v r =
     FieldReader (owner r) (numTerms r) (fieldInfo r) (sumTotalTermFreq r) (sumDocFreq r)
       (docCount r) (indexStartFP r) v (rootCode r) (index r)"

definition set_index :: "FST option \<Rightarrow> FieldReader \<Rightarrow> FieldReader" where
  "set_index v r =
     FieldReader (owner r) (numTerms r) (fieldInfo r) (sumTotalTermFreq r) (sumDocFreq r)
       (docCount r) (indexStartFP r) (rootBlockFP r) (rootCode r) v"

definition set_inp :: "handle option \<Rightarrow> BlockTreeTermsReader \<Rightarrow> BlockTreeTermsReader" where
  "set_inp v r =
     BlockTreeTermsReader v (postingsReader r) (fields r) (dirOffset r) (indexDirOffset r)
       (segment r) (version r)"

definition set_postingsReader ::
  "PostingsReaderBase option \<Rightarrow> BlockTreeTermsReader \<Rightarrow> BlockTreeTermsReader" where
  "set_postingsReader v r =
     BlockTreeTermsReader (inp r) v (fields r) (dirOffset r) (indexDirOffset r)
       (segment r) (version r)"

definition set_fields ::
  "(string \<Rightarrow> FieldReader option) \<Rightarrow> BlockTreeTermsReader \<Rightarrow> BlockTreeTermsReader" where
  "set_fields v r =
     BlockTreeTermsReader (inp r) (postingsReader r) v (dirOffset r) (indexDirOffset r)
       (segment r) (version r)"

definition set_dirOffset :: "int64 \<Rightarrow> BlockTreeTermsReader \<Rightarrow> BlockTreeTermsReader" where
  "set_dirOffset v r =
     BlockTreeTermsReader (inp r) (postingsReader r) (fields r) v (indexDirOffset r)
       (segment r) (version r)"

definition set_indexDirOffset :: "int64 \<Rightarrow> BlockTreeTermsReader \<Rightarrow> BlockTreeTermsReader" where
  "set_indexDirOffset v r =
     BlockTreeTermsReader (inp r) (postingsReader r) (fields r) (dirOffset r) v
       (segment r) (version r)"

definition set_version :: "int \<Rightarrow> BlockTreeTermsReader \<Rightarrow> BlockTreeTermsReader" where
  "set_version v r =
     BlockTreeTermsReader (inp r) (postingsReader r) (fields r) (dirOffset r)
       (indexDirOffset r) (segment r) v"

subsection \<open>Closing\<close>

text \<open>
  Modelled from the spec: \<open>util.Close\<close> and \<open>util.CloseWhileSuppressingError\<close> are not
  among the sources. The spec says that \<open>Close\<close> closes the primary input and the postings
  collaborator, and that a failed open closes whatever handles were opened. \<open>util_Close\<close>
  closes every argument that is not \<open>nil\<close> and returns the first error;
  \<open>CloseWhileSuppressingError\<close> closes every argument that is not \<open>nil\<close> and drops the
  errors. Its second argument is the reader, closed by the source's own \<open>Close\<close>.
\<close>

definition ClosePostings :: "PostingsReaderBase \<Rightarrow> error option \<times> PostingsReaderBase" where
  "ClosePostings pr = (postingsCloseResult pr, pr\<lparr>postingsClosed := True\<rparr>)"

definition util_Close ::
  "handle option \<Rightarrow> PostingsReaderBase option \<Rightarrow> heap
     \<Rightarrow> error option \<times> PostingsReaderBase option \<times> heap" where
  "util_Close i p H =
     (case (case i of None \<Rightarrow> (None, H) | Some h \<Rightarrow> CloseInput h H) of
        (e1, H1) \<Rightarrow>
          (case (case p of None \<Rightarrow> (None, None)
                 | Some pr \<Rightarrow> (fst (ClosePostings pr), Some (snd (ClosePostings pr)))) of
             (e2, p') \<Rightarrow> ((if e1 \<noteq> None then e1 else e2), p', H1)))"

definition Close :: "BlockTreeTermsReader \<Rightarrow> heap \<Rightarrow> error option \<times> BlockTreeTermsReader \<times> heap" where
  "Close r H =
     (case util_Close (inp r) (postingsReader r) H of
        (e, p', H') \<Rightarrow> (e, set_fields Map.empty (set_postingsReader p' r), H'))"

definition CloseWhileSuppressingError ::
  "handle option \<Rightarrow> BlockTreeTermsReader \<Rightarrow> heap \<Rightarrow> BlockTreeTermsReader \<times> heap" where
  "CloseWhileSuppressingError i r H =
     (case Close r (case i of None \<Rightarrow> H | Some h \<Rightarrow> snd (CloseInput h H)) of
        (e, r', H') \<Rightarrow> (r', H'))"

subsection \<open>Headers and the directory offset\<close>

text \<open>\<open>asInt\<close> converts the \<open>int32\<close> of \<open>codec.CheckHeader\<close> to Go's \<open>int\<close>.\<close>

definition asInt :: "int32 \<times> error option \<Rightarrow> int \<times> error option" where
  "asInt ne = (sint (fst ne), snd ne)"

definition readHeader ::
  "externals \<Rightarrow> handle \<Rightarrow> BlockTreeTermsReader \<Rightarrow> heap
     \<Rightarrow> (int \<times> error option) \<times> BlockTreeTermsReader \<times> heap" where
  "readHeader X input r H =
     (case readWith (CheckHeader X BTT_CODEC_NAME BTT_VERSION_START BTT_VERSION_CURRENT) input H of
        (ne, H1) \<Rightarrow>
          (case asInt ne of
             (v, Some e) \<Rightarrow> ((v, Some e), r, H1)
           | (v, None) \<Rightarrow>
               if v < BTT_VERSION_APPEND_ONLY then
                 (case readWith (ReadLong X) input H1 of
                    ((off, Some e), H2) \<Rightarrow> ((v, Some e), set_dirOffset off r, H2)
                  | ((off, None), H2) \<Rightarrow> ((v, None), set_dirOffset off r, H2))
               else ((v, None), r, H1)))"

definition readIndexHeader ::
  "externals \<Rightarrow> handle \<Rightarrow> BlockTreeTermsReader \<Rightarrow> heap
     \<Rightarrow> (int \<times> error option) \<times> BlockTreeTermsReader \<times> heap" where
  "readIndexHeader X input r H =
     (case readWith (CheckHeader X BTT_INDEX_CODEC_NAME BTT_INDEX_VERSION_START
                       BTT_INDEX_VERSION_CURRENT) input H of
        (ne, H1) \<Rightarrow>
          (case asInt ne of
             (v, Some e) \<Rightarrow> ((v, Some e), r, H1)
           | (v, None) \<Rightarrow>
               if v < BTT_INDEX_VERSION_APPEND_ONLY then
                 (case readWith (ReadLong X) input H1 of
                    ((off, Some e), H2) \<Rightarrow> ((v, Some e), set_indexDirOffset off r, H2)
                  | ((off, None), H2) \<Rightarrow> ((v, None), set_indexDirOffset off r, H2))
               else ((v, None), r, H1)))"

definition seekDir ::
  "externals \<Rightarrow> BlockTreeTermsReader \<Rightarrow> handle \<Rightarrow> int64 \<Rightarrow> heap \<Rightarrow> error option \<times> heap" where
  "seekDir X r input dirOff H =
     (if version r \<ge> BTT_INDEX_VERSION_APPEND_ONLY then
        (case readWith (ReadLong X) input (Seek input (Length input H - 8) H) of
           ((off, Some e), H2) \<Rightarrow> (Some e, H2)
         | ((off, None), H2) \<Rightarrow> (None, Seek input off H2))
      else (None, Seek input dirOff H))"

subsection \<open>Terms\<close>

text \<open>
  \<open>ans := r.fields[field]; return &ans\<close>: the lookup gives the zero \<open>FieldReader\<close> for a
  missing key, and the address of the local copy is never \<open>nil\<close>.
\<close>

definition zeroFieldReader :: FieldReader where
  "zeroFieldReader = FieldReader None 0 zeroFieldInfo 0 0 0 0 0 [] None"

definition Terms :: "BlockTreeTermsReader \<Rightarrow> string \<Rightarrow> FieldReader option" where
  "Terms r field =
     Some (case fields r field of None \<Rightarrow> zeroFieldReader | Some ans \<Rightarrow> ans)"

subsection \<open>newFieldReader\<close>

text \<open>
  \<open>store.NewByteArrayDataInput(rootCode).ReadVLong()\<close> is the decoder \<open>ReadVLong\<close> on the
  bytes of the root code, from offset 0. \<open>int64(uint64(n) >> 2)\<close> is the logical shift
  \<open>drop_bit\<close> on the word. \<open>indexIn\<close> is the index input (\<open>None\<close> when it is \<open>nil\<close>);
  its clone is sought to \<open>indexStartFP\<close> and handed to \<open>LoadFST\<close>.
\<close>

definition newFieldReader ::
  "externals \<Rightarrow> FieldInfo \<Rightarrow> int64 \<Rightarrow> byte list \<Rightarrow> int64 \<Rightarrow> int64 \<Rightarrow> int32 \<Rightarrow> int64
     \<Rightarrow> IndexInput option \<Rightarrow> FieldReader \<times> error option" where
  "newFieldReader X fi nTerms rCode sumTTF sumDF dCount startFP indexIn =
     (let r = FieldReader None nTerms fi sumTTF sumDF dCount startFP 0 rCode None in
      case ReadVLong X rCode 0 of
        ((n, Some e), p) \<Rightarrow> (r, Some e)
      | ((n, None), p) \<Rightarrow>
          (case indexIn of
             None \<Rightarrow> (set_rootBlockFP (drop_bit BTT_OUTPUT_FLAGS_NUM_BITS n) r, None)
           | Some i \<Rightarrow>
               (set_index (fst (LoadFST X (data i) startFP))
                  (set_rootBlockFP (drop_bit BTT_OUTPUT_FLAGS_NUM_BITS n) r),
                snd (LoadFST X (data i) startFP))))"

subsection \<open>newBlockTreeTermsReader\<close>

text \<open>
  The variables the function mutates: the reader \<open>*fp\<close> (as \<open>rd\<close>), \<open>indexIn\<close> and the
  table of inputs (as \<open>mem\<close>). Every step returns the error it leaves the function with
  (\<open>None\<close>: go on) and the variables at that point. \<open>fp.in\<close> is assigned once, before the
  \<open>defer\<close>, so the steps take its handle as \<open>h\<close>. The \<open>log\<close> calls and the \<open>IOContext\<close>,
  which is only passed on to \<open>OpenInput\<close>, are left out.
\<close>

record locals =
  rd :: BlockTreeTermsReader
  indexIn :: "handle option"
  mem :: heap

text \<open>Lines 108 to 122: the index file, its header, the version comparison.\<close>

definition openIndex ::
  "externals \<Rightarrow> Directory \<Rightarrow> SegmentInfo \<Rightarrow> string \<Rightarrow> int \<Rightarrow> locals \<Rightarrow> error option \<times> locals" where
  "openIndex X dir info segmentSuffix indexDivisor L =
     (if indexDivisor \<noteq> -1 then
        (case OpenInput dir (SegmentFileName X (segName info) segmentSuffix BTT_INDEX_EXTENSION)
                (mem L) of
           ((i, Some e), H1) \<Rightarrow> (Some e, L\<lparr>indexIn := i, mem := H1\<rparr>)
         | ((None, None), H1) \<Rightarrow>
             (Some (Panic ''nil pointer dereference''), L\<lparr>indexIn := None, mem := H1\<rparr>)
         | ((Some ih, None), H1) \<Rightarrow>
             (case readIndexHeader X ih (rd L) H1 of
                ((indexVersion, Some e), r2, H2) \<Rightarrow>
                  (Some e, \<lparr>rd = r2, indexIn = Some ih, mem = H2\<rparr>)
              | ((indexVersion, None), r2, H2) \<Rightarrow>
                  if indexVersion \<noteq> version r2 then
                    (Some (MixmatchedVersion (version r2) indexVersion),
                     \<lparr>rd = r2, indexIn = Some ih, mem = H2\<rparr>)
                  else (None, \<lparr>rd = r2, indexIn = Some ih, mem = H2\<rparr>)))
      else (None, L))"

text \<open>Lines 128 to 131: both \<open>seekDir\<close> calls; the source drops what they return.\<close>

definition seekDirs :: "externals \<Rightarrow> int \<Rightarrow> handle \<Rightarrow> locals \<Rightarrow> error option \<times> locals" where
  "seekDirs X indexDivisor h L =
     (if indexDivisor \<noteq> -1 then
        (case indexIn L of
           None \<Rightarrow>
             (Some (Panic ''nil pointer dereference''),
              L\<lparr>mem := snd (seekDir X (rd L) h (dirOffset (rd L)) (mem L))\<rparr>)
         | Some ih \<Rightarrow>
             (None,
              L\<lparr>mem := snd (seekDir X (rd L) ih (indexDirOffset (rd L))
                             (snd (seekDir X (rd L) h (dirOffset (rd L)) (mem L))))\<rparr>))
      else (None, L\<lparr>mem := snd (seekDir X (rd L) h (dirOffset (rd L)) (mem L))\<rparr>))"

text \<open>Lines 188 to 202: the three checks of the counts, in the source's order.\<close>

definition checkCounts :: "SegmentInfo \<Rightarrow> int32 \<Rightarrow> int64 \<Rightarrow> int64 \<Rightarrow> error option" where
  "checkCounts info dCount sumDF sumTTF =
     (if sint dCount < 0 \<or> sint dCount > sint (segDocCount info) then
        Some (InvalidDocCount dCount (segDocCount info))
      else if sint sumDF < sint (scast dCount :: int64) then
        Some (InvalidSumDocFreq sumDF dCount)
      else if sumTTF \<noteq> -1 \<and> sint sumTTF < sint sumDF then
        Some (InvalidSumTotalTermFreq sumTTF sumDF)
      else None)"

text \<open>
  Lines 204 to 222: the index start pointer, the duplicate check, \<open>newFieldReader\<close>. The
  map entry is assigned before the error of \<open>newFieldReader\<close> is looked at.
\<close>

definition addField ::
  "externals \<Rightarrow> int \<Rightarrow> FieldInfo \<Rightarrow> int64 \<Rightarrow> byte list \<Rightarrow> int64 \<Rightarrow> int64 \<Rightarrow> int32 \<Rightarrow> locals
     \<Rightarrow> error option \<times> locals" where
  "addField X indexDivisor fi nTerms rCode sumTTF sumDF dCount L =
     (case (if indexDivisor \<noteq> -1 then
              (case indexIn L of
                 None \<Rightarrow> ((0, Some (Panic ''nil pointer dereference'')), mem L)
               | Some ih \<Rightarrow> readWith (ReadVLong X) ih (mem L))
            else ((0, None), mem L)) of
        ((startFP, Some e), H1) \<Rightarrow> (Some e, L\<lparr>mem := H1\<rparr>)
      | ((startFP, None), H1) \<Rightarrow>
          if BlockTreeTermsReader.fields (rd L) (name fi) \<noteq> None then
            (Some (DuplicateField (name fi)), L\<lparr>mem := H1\<rparr>)
          else
            (case newFieldReader X fi nTerms rCode sumTTF sumDF dCount startFP
                    (map_option (\<lambda>ih. H1 ! ih) (indexIn L)) of
               (fr, err) \<Rightarrow>
                 (err,
                  L\<lparr>rd := set_fields ((BlockTreeTermsReader.fields (rd L))(name fi \<mapsto> fr)) (rd L),
                    mem := H1\<rparr>)))"

text \<open>Lines 170 to 222: the sums, the document count, the checks, the new entry.\<close>

definition readFieldStats ::
  "externals \<Rightarrow> SegmentInfo \<Rightarrow> int \<Rightarrow> handle \<Rightarrow> FieldInfo \<Rightarrow> int64 \<Rightarrow> byte list \<Rightarrow> locals
     \<Rightarrow> error option \<times> locals" where
  "readFieldStats X info indexDivisor h fi nTerms rCode L =
     (case (if indexOptions fi = INDEX_OPT_DOCS_ONLY X then ((-1, None), mem L)
            else readWith (ReadVLong X) h (mem L)) of
        ((sumTTF, Some e), H1) \<Rightarrow> (Some e, L\<lparr>mem := H1\<rparr>)
      | ((sumTTF, None), H1) \<Rightarrow>
          (case readWith (ReadVLong X) h H1 of
             ((sumDF, Some e), H2) \<Rightarrow> (Some e, L\<lparr>mem := H2\<rparr>)
           | ((sumDF, None), H2) \<Rightarrow>
               (case readWith (ReadVInt X) h H2 of
                  ((dCount, Some e), H3) \<Rightarrow> (Some e, L\<lparr>mem := H3\<rparr>)
                | ((dCount, None), H3) \<Rightarrow>
                    (case checkCounts info dCount sumDF sumTTF of
                       Some e \<Rightarrow> (Some e, L\<lparr>mem := H3\<rparr>)
                     | None \<Rightarrow>
                         addField X indexDivisor fi nTerms rCode sumTTF sumDF dCount
                           (L\<lparr>mem := H3\<rparr>)))))"

text \<open>
  Lines 143 to 222: one round of the loop over the fields. \<open>make([]byte, numBytes)\<close>
  panics on a negative length.
\<close>

definition readField ::
  "externals \<Rightarrow> FieldInfos \<Rightarrow> SegmentInfo \<Rightarrow> int \<Rightarrow> handle \<Rightarrow> locals \<Rightarrow> error option \<times> locals" where
  "readField X fieldInfos info indexDivisor h L =
     (case readWith (ReadVInt X) h (mem L) of
        ((field, Some e), H1) \<Rightarrow> (Some e, L\<lparr>mem := H1\<rparr>)
      | ((field, None), H1) \<Rightarrow>
          (case readWith (ReadVLong X) h H1 of
             ((nTerms, Some e), H2) \<Rightarrow> (Some e, L\<lparr>mem := H2\<rparr>)
           | ((nTerms, None), H2) \<Rightarrow>
               (case readWith (ReadVInt X) h H2 of
                  ((numBytes, Some e), H3) \<Rightarrow> (Some e, L\<lparr>mem := H3\<rparr>)
                | ((numBytes, None), H3) \<Rightarrow>
                    if sint numBytes < 0 then
                      (Some (Panic ''makeslice: len out of range''), L\<lparr>mem := H3\<rparr>)
                    else
                      (case readWith (ReadBytes X (nat (sint numBytes))) h H3 of
                         ((rCode, Some e), H4) \<Rightarrow> (Some e, L\<lparr>mem := H4\<rparr>)
                       | ((rCode, None), H4) \<Rightarrow>
                           readFieldStats X info indexDivisor h (byNumberAt fieldInfos field)
                             nTerms rCode (L\<lparr>mem := H4\<rparr>)))))"

text \<open>
  \<open>for i := int32(0); i < numFields; i++\<close>: the body does not read \<open>i\<close>, so the loop is
  a recursion on the number of rounds left; an error leaves the function at once.
\<close>

primrec readFields ::
  "externals \<Rightarrow> FieldInfos \<Rightarrow> SegmentInfo \<Rightarrow> int \<Rightarrow> handle \<Rightarrow> nat \<Rightarrow> locals
     \<Rightarrow> error option \<times> locals" where
  "readFields X fieldInfos info indexDivisor h 0 L = (None, L)"
| "readFields X fieldInfos info indexDivisor h (Suc n) L =
     (case readField X fieldInfos info indexDivisor h L of
        (Some e, L') \<Rightarrow> (Some e, L')
      | (None, L') \<Rightarrow> readFields X fieldInfos info indexDivisor h n L')"

text \<open>Lines 133 to 234: the number of fields, the loop, closing the index input.\<close>

definition readDirectory ::
  "externals \<Rightarrow> FieldInfos \<Rightarrow> SegmentInfo \<Rightarrow> int \<Rightarrow> handle \<Rightarrow> locals \<Rightarrow> error option \<times> locals" where
  "readDirectory X fieldInfos info indexDivisor h L =
     (case readWith (ReadVInt X) h (mem L) of
        ((numFields, Some e), H1) \<Rightarrow> (Some e, L\<lparr>mem := H1\<rparr>)
      | ((numFields, None), H1) \<Rightarrow>
          if sint numFields < 0 then (Some (InvalidNumFields numFields), L\<lparr>mem := H1\<rparr>)
          else
            (case readFields X fieldInfos info indexDivisor h (nat (sint numFields))
                    (L\<lparr>mem := H1\<rparr>) of
               (Some e, L2) \<Rightarrow> (Some e, L2)
             | (None, L2) \<Rightarrow>
                 if indexDivisor \<noteq> -1 then
                   (case indexIn L2 of
                      None \<Rightarrow> (Some (Panic ''nil pointer dereference''), L2)
                    | Some ih \<Rightarrow>
                        (fst (CloseInput ih (mem L2)), L2\<lparr>mem := snd (CloseInput ih (mem L2))\<rparr>))
                 else (None, L2)))"

text \<open>
  Lines 102 to 234, the part of the function that runs under the \<open>defer\<close>. It returns
  \<open>None\<close> exactly when the source reaches \<open>success = true\<close>.
\<close>

definition openBody ::
  "externals \<Rightarrow> Directory \<Rightarrow> FieldInfos \<Rightarrow> SegmentInfo \<Rightarrow> string \<Rightarrow> int \<Rightarrow> handle \<Rightarrow> locals
     \<Rightarrow> error option \<times> locals" where
  "openBody X dir fieldInfos info segmentSuffix indexDivisor h L =
     (case readHeader X h (rd L) (mem L) of
        ((v, Some e), r1, H1) \<Rightarrow> (Some e, L\<lparr>rd := set_version v r1, mem := H1\<rparr>)
      | ((v, None), r1, H1) \<Rightarrow>
          (case openIndex X dir info segmentSuffix indexDivisor
                  (L\<lparr>rd := set_version v r1, mem := H1\<rparr>) of
             (Some e, L2) \<Rightarrow> (Some e, L2)
           | (None, L2) \<Rightarrow>
               (case postingsReader (rd L2) of
                  None \<Rightarrow> (Some (Panic ''nil pointer dereference''), L2)
                | Some pr \<Rightarrow>
                    (case seekDirs X indexDivisor h
                            (L2\<lparr>rd := set_postingsReader (Some (Init (Some h) pr)) (rd L2)\<rparr>) of
                       (Some e, L3) \<Rightarrow> (Some e, L3)
                     | (None, L3) \<Rightarrow> readDirectory X fieldInfos info indexDivisor h L3))))"

text \<open>
  The whole function. An error of the first \<open>OpenInput\<close> returns before the \<open>defer\<close> is
  set up. After it, every way out but \<open>success = true\<close> runs
  \<open>util.CloseWhileSuppressingError(indexIn, fp)\<close>. The function returns \<open>fp\<close> beside every
  error it returns; a panic returns no reader.
\<close>

definition newBlockTreeTermsReader ::
  "externals \<Rightarrow> Directory \<Rightarrow> FieldInfos \<Rightarrow> SegmentInfo \<Rightarrow> PostingsReaderBase option \<Rightarrow> string
     \<Rightarrow> int \<Rightarrow> heap \<Rightarrow> (BlockTreeTermsReader option \<times> error option) \<times> heap" where
  "newBlockTreeTermsReader X dir fieldInfos info pReader segmentSuffix indexDivisor H =
     (case OpenInput dir (SegmentFileName X (segName info) segmentSuffix BTT_EXTENSION) H of
        ((i, Some e), H1) \<Rightarrow>
          ((Some (BlockTreeTermsReader i pReader Map.empty 0 0 (segName info) 0), Some e), H1)
      | ((None, None), H1) \<Rightarrow>
          ((None, Some (Panic ''nil pointer dereference'')),
           snd (CloseWhileSuppressingError None
                  (BlockTreeTermsReader None pReader Map.empty 0 0 (segName info) 0) H1))
      | ((Some h, None), H1) \<Rightarrow>
          (case openBody X dir fieldInfos info segmentSuffix indexDivisor h
                  \<lparr>rd = BlockTreeTermsReader (Some h) pReader Map.empty 0 0 (segName info) 0,
                   indexIn = None, mem = H1\<rparr> of
             (None, L) \<Rightarrow> ((Some (rd L), None), mem L)
           | (Some e, L) \<Rightarrow>
               (case CloseWhileSuppressingError (indexIn L) (rd L) (mem L) of
                  (r', H') \<Rightarrow> ((case e of Panic s \<Rightarrow> None | _ \<Rightarrow> Some r', Some e), H'))))"

subsection \<open>SegmentTermsEnum\<close>

text \<open>
  The fields of the iterator whose types are in the source file or are plain Go types
  (\<open>enumOwner\<close> is the field \<open>owner\<close>, \<open>enumIn\<close> is \<open>in\<close>, \<open>termBytes\<close> is \<open>term\<close>). The
  embedded \<open>TermsEnumImpl\<close>, \<open>scratchReader\<close>, \<open>fstReader\<close> and \<open>arcs\<close> have types of other
  packages, and the frames \<open>stack\<close>, \<open>staticFrame\<close> and \<open>currentFrame\<close> are never assigned;
  no function of the source reads any of them, and they are left out.
\<close>

record SegmentTermsEnum =
  enumOwner :: "FieldReader option"
  enumIn :: "handle option"
  termExists :: bool
  targetBeforeCurrentLength :: int
  eof :: bool
  termBytes :: "byte list"

definition newSegmentTermsEnum :: "FieldReader option \<Rightarrow> SegmentTermsEnum" where
  "newSegmentTermsEnum r =
     \<lparr>enumOwner = r, enumIn = None, termExists = False, targetBeforeCurrentLength = 0,
      eof = False, termBytes = []\<rparr>"

definition Iterator :: "FieldReader \<Rightarrow> SegmentTermsEnum" where
  "Iterator r = newSegmentTermsEnum (Some r)"

text \<open>
  \<open>SeekExact\<close> and \<open>Next\<close> are \<open>panic("not implemented yet")\<close> in the source. A result
  would be the value returned and the iterator after the call.
\<close>

definition SeekExact :: "SegmentTermsEnum \<Rightarrow> byte list \<Rightarrow> error + (bool \<times> SegmentTermsEnum)" where
  "SeekExact e target = Inl (Panic ''not implemented yet'')"

definition Next :: "SegmentTermsEnum \<Rightarrow> error + ((byte list \<times> error option) \<times> SegmentTermsEnum)" where
  "Next e = Inl (Panic ''not implemented yet'')"

definition Term :: "SegmentTermsEnum \<Rightarrow> error + byte list" where
  "Term e = (if eof e then Inl (Panic ''assertion error'') else Inr (termBytes e))"

subsection \<open>segmentTermsEnumFrame\<close>

text \<open>
  The fields of the frame in the source's order (\<open>frameOwner\<close> is the field \<open>owner\<close>),
  but \<open>arc\<close> and the three \<open>ByteArrayDataInput\<close> readers, whose types are of other
  packages and which \<open>newFrame\<close> leaves at their zero values.
\<close>

record segmentTermsEnumFrame =
  frameOwner :: "SegmentTermsEnum option"
  ord :: int
  hasTerms :: bool
  hasTermsOrig :: bool
  isFloor :: bool
  fp :: int64
  fpOrig :: int64
  fpEnd :: int64
  suffixBytes :: "byte list"
  statBytes :: "byte list"
  floorData :: "byte list"
  prefix :: int
  entCount :: int
  nextEnt :: int
  isLastInFloor :: bool
  isLeafBlock :: bool
  lastSubFP :: int64
  nextFloorLabel :: int
  numFollowFloorBlocks :: int
  metaDataUpto :: int
  state :: "BlockTermState option"

text \<open>
  \<open>owner.owner.owner.postingsReader.NewTermState()\<close> dereferences the iterator, its field
  reader, that one's reader and the postings reader, and \<open>f.state.totalTermFreq = -1\<close>
  the state returned: each panics on \<open>nil\<close>.
\<close>

definition newFrame :: "SegmentTermsEnum option \<Rightarrow> int \<Rightarrow> error + segmentTermsEnumFrame" where
  "newFrame own n =
     (case own of
        None \<Rightarrow> Inl (Panic ''nil pointer dereference'')
      | Some e \<Rightarrow>
     (case enumOwner e of
        None \<Rightarrow> Inl (Panic ''nil pointer dereference'')
      | Some fr \<Rightarrow>
     (case owner fr of
        None \<Rightarrow> Inl (Panic ''nil pointer dereference'')
      | Some r \<Rightarrow>
     (case postingsReader r of
        None \<Rightarrow> Inl (Panic ''nil pointer dereference'')
      | Some pr \<Rightarrow>
     (case NewTermState pr of
        None \<Rightarrow> Inl (Panic ''nil pointer dereference'')
      | Some ts \<Rightarrow>
          Inr \<lparr>frameOwner = own, ord = n, hasTerms = False, hasTermsOrig = False,
               isFloor = False, fp = 0, fpOrig = 0, fpEnd = 0,
               suffixBytes = replicate 128 0, statBytes = replicate 64 0,
               floorData = replicate 32 0, prefix = 0, entCount = 0, nextEnt = 0,
               isLastInFloor = False, isLeafBlock = False, lastSubFP = 0, nextFloorLabel = 0,
               numFollowFloorBlocks = 0, metaDataUpto = 0,
               state = Some (ts\<lparr>totalTermFreq := -1\<rparr>)\<rparr>)))))"

subsection \<open>An instance of the other packages, and example dictionaries\<close>

text \<open>
  Modelled from the spec: the decoders of package \<open>store\<close>, \<open>codec.CheckHeader\<close> and
  \<open>util.SegmentFileName\<close> are not among the sources. The theorems hold for any choice of
  them; the concrete runs below use this one. The spec speaks of variable-length
  integers, an 8-byte offset, and a header that is a fixed codec-name string followed by
  a version integer which readers reject outside the supported range. Here a
  variable-length integer has seven bits in each byte, low bits first, and the high bit
  set on every byte but the last; fixed-size integers are big-endian; a string is its
  length as a variable-length integer and then its bytes; a file name is the segment
  name, \<open>_suffix\<close> for a suffix that is not empty, and \<open>.extension\<close>.
\<close>

definition readByte :: "byte decoder" where
  "readByte d p =
     (if unat p < length d then ((d ! unat p, None), p + 1)
      else ((0, Some (StoreError ''read past EOF'')), p))"

fun readVarint :: "nat \<Rightarrow> nat \<Rightarrow> int64 decoder" where
  "readVarint 0 shift d p = ((0, Some (StoreError ''invalid variable-length integer'')), p)"
| "readVarint (Suc k) shift d p =
     (case readByte d p of
        ((b, Some e), p') \<Rightarrow> ((0, Some e), p')
      | ((b, None), p') \<Rightarrow>
          if b AND 0x80 = 0 then ((push_bit shift (ucast b), None), p')
          else (case readVarint k (shift + 7) d p' of
                  ((v, err), p'') \<Rightarrow> ((push_bit shift (ucast (b AND 0x7F)) OR v, err), p'')))"

fun readBE :: "nat \<Rightarrow> int64 \<Rightarrow> int64 decoder" where
  "readBE 0 acc d p = ((acc, None), p)"
| "readBE (Suc k) acc d p =
     (case readByte d p of
        ((b, Some e), p') \<Rightarrow> ((acc, Some e), p')
      | ((b, None), p') \<Rightarrow> readBE k (push_bit 8 acc OR ucast b) d p')"

definition readBytes :: "nat \<Rightarrow> (byte list) decoder" where
  "readBytes k d p =
     (if unat p + k \<le> length d then ((take k (drop (unat p) d), None), p + word_of_nat k)
      else ((replicate k 0, Some (StoreError ''read past EOF'')), p))"

definition readVInt :: "int32 decoder" where
  "readVInt d p = (case readVarint 5 0 d p of ((v, e), p') \<Rightarrow> ((ucast v, e), p'))"

definition checkHeader :: "string \<Rightarrow> int \<Rightarrow> int \<Rightarrow> int32 decoder" where
  "checkHeader codec minVersion maxVersion d p =
     (case readVInt d p of
        ((k, Some e), p1) \<Rightarrow> ((0, Some e), p1)
      | ((k, None), p1) \<Rightarrow>
     (case readBytes (unat k) d p1 of
        ((bs, Some e), p2) \<Rightarrow> ((0, Some e), p2)
      | ((bs, None), p2) \<Rightarrow>
          if bs \<noteq> map of_char codec then ((0, Some (StoreError ''codec mismatch'')), p2)
          else
     (case readBE 4 0 d p2 of
        ((v, Some e), p3) \<Rightarrow> ((0, Some e), p3)
      | ((v, None), p3) \<Rightarrow>
          if sint (ucast v :: int32) < minVersion \<or> maxVersion < sint (ucast v :: int32) then
            ((0, Some (StoreError ''version out of range'')), p3)
          else ((ucast v, None), p3))))"

definition segmentFileName :: "string \<Rightarrow> string \<Rightarrow> string \<Rightarrow> string" where
  "segmentFileName nm suffix ext =
     (if ext \<noteq> [] \<or> suffix \<noteq> [] then
        nm @ (if suffix \<noteq> [] then ''_'' @ suffix else [])
           @ (if ext \<noteq> [] then ''.'' @ ext else [])
      else nm)"

definition exampleExternals :: externals where
  "exampleExternals =
     \<lparr>SegmentFileName = segmentFileName, CheckHeader = checkHeader, ReadVInt = readVInt,
      ReadVLong = readVarint 9 0, ReadLong = readBE 8 0, ReadBytes = readBytes,
      LoadFST = (\<lambda>d p. (None, None)), INDEX_OPT_DOCS_ONLY = 1\<rparr>"

text \<open>
  A terms file of the append-only version: the header (26 bytes), the directory at
  offset 26 and the 8-byte pointer to it at the end. The directory holds one field:
  field number, number of terms, root code, sum of total term frequencies, sum of
  document frequencies, document count.
\<close>

definition timFile :: "byte \<Rightarrow> byte \<Rightarrow> byte \<Rightarrow> byte \<Rightarrow> byte list" where
  "timFile nTerms sumTTF sumDF dCount =
     [21] @ map of_char BTT_CODEC_NAME @ [0, 0, 0, 1]
       @ [1, 0, nTerms, 1, 0x0d, sumTTF, sumDF, dCount]
       @ [0, 0, 0, 0, 0, 0, 0, 26]"

text \<open>A terms file of the first version: the directory offset follows the header.\<close>

definition timFileOld :: "byte list" where
  "timFileOld =
     [21] @ map of_char BTT_CODEC_NAME @ [0, 0, 0, 0] @ [0, 0, 0, 0, 0, 0, 0, 34]
       @ [1, 0, 3, 1, 0x0d, 3, 3, 3]"

text \<open>Index files of the first and of the append-only version, with one start pointer.\<close>

definition tipFileOld :: "byte list" where
  "tipFileOld =
     [22] @ map of_char BTT_INDEX_CODEC_NAME @ [0, 0, 0, 0] @ [0, 0, 0, 0, 0, 0, 0, 35] @ [35]"

definition tipFile :: "byte list" where
  "tipFile =
     [22] @ map of_char BTT_INDEX_CODEC_NAME @ [0, 0, 0, 1] @ [27] @ [0, 0, 0, 0, 0, 0, 0, 27]"

definition exampleDir :: "byte list \<Rightarrow> byte list \<Rightarrow> Directory" where
  "exampleDir tim tip =
     [''_0.tim'' \<mapsto> \<lparr>content = tim, closeErr = None\<rparr>,
      ''_0.tip'' \<mapsto> \<lparr>content = tip, closeErr = None\<rparr>]"

definition bodyInfo :: FieldInfo where
  "bodyInfo = \<lparr>name = ''body'', indexOptions = 2\<rparr>"

definition exampleInfos :: FieldInfos where
  "exampleInfos = \<lparr>byNumber = [0 \<mapsto> bodyInfo]\<rparr>"

definition exampleSegment :: SegmentInfo where
  "exampleSegment = \<lparr>segName = ''_0'', segDocCount = 10\<rparr>"

definition examplePostings :: PostingsReaderBase where
  "examplePostings =
     \<lparr>termsIn = None, postingsClosed = False, postingsCloseResult = None,
      NewTermState = Some \<lparr>totalTermFreq = 0\<rparr>\<rparr>"

text \<open>Opening the example segment over a terms file and an index file, from no open input.\<close>

definition exampleOpen ::
  "byte list \<Rightarrow> byte list \<Rightarrow> int \<Rightarrow> (BlockTreeTermsReader option \<times> error option) \<times> heap" where
  "exampleOpen tim tip indexDivisor =
     newBlockTreeTermsReader exampleExternals (exampleDir tim tip) exampleInfos exampleSegment
       (Some examplePostings) [] indexDivisor []"

text \<open>
  The entry the open of \<open>timFile 3 3 3 3\<close> stores for the field \<open>body\<close>, and the same
  entry with an owner, as \<open>newFrame\<close> needs it.
\<close>

definition bodyReader :: FieldReader where
  "bodyReader = FieldReader None 3 bodyInfo 3 3 3 0 3 [0x0d] None"

definition ownedBodyReader :: FieldReader where
  "ownedBodyReader =
     FieldReader
       (Some (BlockTreeTermsReader (Some 0) (Some examplePostings) Map.empty 0 0 ''_0'' 1))
       3 bodyInfo 3 3 3 0 3 [0x0d] None"

text \<open>
  The table of inputs with one open input over the given bytes, at offset 0 or at a
  given offset, and a reader of a given version over it.
\<close>

definition heapOf :: "byte list \<Rightarrow> heap" where
  "heapOf bs = [\<lparr>data = bs, pos = 0, closed = False, closeResult = None\<rparr>]"

definition heapAt :: "byte list \<Rightarrow> int64 \<Rightarrow> heap" where
  "heapAt bs p = [\<lparr>data = bs, pos = p, closed = False, closeResult = None\<rparr>]"

definition exampleReader :: "int \<Rightarrow> BlockTreeTermsReader" where
  "exampleReader v = BlockTreeTermsReader (Some 0) (Some examplePostings) Map.empty 0 0 ''_0'' v"

subsection \<open>The count invariants, and what a step of the open sequence keeps\<close>

text \<open>
  The three invariants of a field's counts, in the words of the spec: \<open>docCount\<close> in
  \<open>[0, segmentMaxDoc]\<close>, \<open>sumDocFreq \<ge> docCount\<close>, and \<open>sumTotalTermFreq\<close> either -1 or
  \<open>\<ge> sumDocFreq\<close>.
\<close>

definition countInvariants :: "SegmentInfo \<Rightarrow> FieldReader \<Rightarrow> bool" where
  "countInvariants info fr \<longleftrightarrow>
     0 \<le> sint (docCount fr) \<and> sint (docCount fr) \<le> sint (segDocCount info) \<and>
     sint (docCount fr) \<le> sint (sumDocFreq fr) \<and>
     (sumTotalTermFreq fr = - 1 \<or> sint (sumDocFreq fr) \<le> sint (sumTotalTermFreq fr))"

definition allValid :: "SegmentInfo \<Rightarrow> locals \<Rightarrow> bool" where
  "allValid info L \<longleftrightarrow>
     (\<forall>nm fr. BlockTreeTermsReader.fields (rd L) nm = Some fr \<longrightarrow> countInvariants info fr)"

text \<open>
  A step over the primary input \<open>h\<close> keeps \<open>fp.in\<close>, \<open>indexIn\<close>, the number of inputs, and
  every input but \<open>h\<close> and \<open>indexIn\<close>.
\<close>

definition keeps :: "handle \<Rightarrow> locals \<Rightarrow> locals \<Rightarrow> bool" where
  "keeps h L L' \<longleftrightarrow>
     inp (rd L') = inp (rd L) \<and> indexIn L' = indexIn L \<and>
     length (mem L') = length (mem L) \<and>
     (\<forall>k. k \<noteq> h \<and> indexIn L \<noteq> Some k \<longrightarrow> mem L' ! k = mem L ! k)"

text \<open>
  After the primary input \<open>h\<close> is open: \<open>fp.in\<close> is \<open>h\<close>, the index input is either
  not open or the next handle, no further input exists, and the inputs that were there
  before (those of \<open>H0\<close> below \<open>h\<close>) are as they were.
\<close>

definition tracks :: "handle \<Rightarrow> heap \<Rightarrow> locals \<Rightarrow> bool" where
  "tracks h H0 L \<longleftrightarrow>
     inp (rd L) = Some h \<and>
     (indexIn L = None \<and> length (mem L) = Suc h \<or>
      indexIn L = Some (Suc h) \<and> length (mem L) = Suc (Suc h)) \<and>
     (\<forall>k<h. mem L ! k = H0 ! k)"

section \<open>Theorems\<close>

subsection \<open>Facts of the example dictionaries\<close>

lemma exampleOpen_body:
  "(case exampleOpen (timFile 3 3 3 3) tipFile (- 1) of
      ((Some r, None), H) \<Rightarrow>
        (case Terms r ''body'' of
           Some fr \<Rightarrow>
             numTerms fr = numTerms bodyReader \<and> fieldInfo fr = fieldInfo bodyReader \<and>
             sumTotalTermFreq fr = sumTotalTermFreq bodyReader \<and>
             sumDocFreq fr = sumDocFreq bodyReader \<and> docCount fr = docCount bodyReader \<and>
             indexStartFP fr = indexStartFP bodyReader \<and>
             rootBlockFP fr = rootBlockFP bodyReader \<and> rootCode fr = rootCode bodyReader \<and>
             Option.is_none (owner fr) \<and> Option.is_none (index fr)
         | None \<Rightarrow> False)
    | _ \<Rightarrow> False)"
  by code_simp

subsection \<open>Seeking and iterating\<close>

text \<open>
  Claim C1, as the code has it: \<open>SeekExact\<close> is not implemented. On every iterator and
  every target it panics with "not implemented yet" and returns neither true nor false.
  \<open>Term\<close> returns the stored term of an iterator whose \<open>eof\<close> is false and panics with
  "assertion error" on one whose \<open>eof\<close> is true.
\<close>

theorem SeekExact_unimplemented:
  "SeekExact e target = Inl (Panic ''not implemented yet'') \<and>
   Term e = (if eof e then Inl (Panic ''assertion error'') else Inr (termBytes e))"
  by (simp add: SeekExact_def Term_def)

text \<open>
  The claim as stated asks for the result true on a term that was written. The field
  \<open>body\<close> of the example dictionary has three terms; on its iterator \<open>SeekExact\<close> of the
  bytes of \<open>car\<close> is an error, not the result true.
\<close>

theorem SeekExact_counterexample:
  "numTerms bodyReader = 3 \<and>
   SeekExact (Iterator bodyReader) (map of_char ''car'') \<noteq> Inr (True, Iterator bodyReader) \<and>
   isl (SeekExact (Iterator bodyReader) (map of_char ''car''))"
  by (simp add: SeekExact_def bodyReader_def)

text \<open>
  Claim C2, as the code has it: \<open>Next\<close> is not implemented. On every iterator it panics
  with "not implemented yet": it yields no term and signals no end of sequence. A fresh
  iterator of a field reader has \<open>eof\<close> and \<open>termExists\<close> false, an empty term, and that
  field reader as its owner.
\<close>

theorem Next_unimplemented:
  "Next e = Inl (Panic ''not implemented yet'') \<and>
   eof (Iterator r) = False \<and> termExists (Iterator r) = False \<and>
   termBytes (Iterator r) = [] \<and> enumOwner (Iterator r) = Some r"
  by (simp add: Next_def Iterator_def newSegmentTermsEnum_def)

text \<open>
  The claim as stated asks for three terms from the field \<open>body\<close> of the example
  dictionary; the first \<open>Next\<close> on its fresh iterator is an error.
\<close>

theorem Next_counterexample:
  "numTerms bodyReader = 3 \<and> isl (Next (Iterator bodyReader))"
  by (simp add: Next_def bodyReader_def)

subsection \<open>Terms of a missing field, and fields without terms\<close>

text \<open>
  Claim C6 asks for a not-found indicator for a field with no dictionary entry. The
  example dictionary has the one field \<open>body\<close>; \<open>Terms\<close> of \<open>title\<close> on the reader
  opened from it is not \<open>nil\<close>: it is a handle over the zero field reader.
\<close>

theorem Terms_missing_field:
  "(case exampleOpen (timFile 3 3 3 3) tipFile (- 1) of
      ((Some r, None), H) \<Rightarrow>
        Option.is_none (BlockTreeTermsReader.fields r ''title'') \<and>
        (case Terms r ''title'' of
           Some fr \<Rightarrow> numTerms fr = 0 \<and> rootCode fr = [] \<and> name (fieldInfo fr) = []
         | None \<Rightarrow> False)
    | _ \<Rightarrow> False)"
  by code_simp

text \<open>
  Claim C9 asks that every entry the reader constructs has \<open>numTerms > 0\<close>. The terms
  file \<open>timFile 0 0 0 0\<close> stores a field \<open>body\<close> without terms (no terms, both sums and
  the document count 0); the open succeeds, the entry of \<open>body\<close> has \<open>numTerms = 0\<close>,
  and \<open>Terms\<close> hands it out.
\<close>

theorem zero_terms_entry:
  "(case exampleOpen (timFile 0 0 0 0) tipFile (- 1) of
      ((Some r, None), H) \<Rightarrow>
        (case BlockTreeTermsReader.fields r ''body'' of
           Some fr \<Rightarrow> numTerms fr = 0
         | None \<Rightarrow> False) \<and>
        (case Terms r ''body'' of
           Some fr \<Rightarrow> numTerms fr = 0 \<and> numTerms (the (enumOwner (Iterator fr))) = 0
         | None \<Rightarrow> False)
    | _ \<Rightarrow> False)"
  by code_simp

subsection \<open>The root code\<close>

lemma Suc_Suc_diff_2: "2 \<le> k \<Longrightarrow> Suc (Suc (k - 2)) = k"
  by arith

lemma word_split_flags: "push_bit 2 (drop_bit 2 (n::int64)) OR (n AND 3) = n"
proof -
  have "n AND 3 = take_bit 2 n"
    by (simp add: take_bit_eq_mask mask_eq_exp_minus_1)
  moreover have "push_bit 2 (drop_bit 2 n) OR take_bit 2 n = n"
    by (rule bit_word_eqI) (auto simp: bit_simps Suc_Suc_diff_2 not_less)
  ultimately show ?thesis by simp
qed

text \<open>
  Claim C8: \<open>newFieldReader\<close> reads one variable-length integer \<open>n\<close> from the root code;
  the root block's file pointer is \<open>n\<close> shifted right by 2 (a logical shift), the low 2
  bits of \<open>n\<close> are the flag bits, so \<open>n\<close> is the pointer shifted left by 2 with the flags
  in the low bits; and the root code is stored as it was given.
\<close>

theorem newFieldReader_rootBlockFP:
  "ReadVLong X rCode 0 = ((n, None), p) \<Longrightarrow>
     rootBlockFP (fst (newFieldReader X fi nTerms rCode sumTTF sumDF dCount startFP idx))
       = drop_bit 2 n \<and>
     push_bit 2 (rootBlockFP (fst (newFieldReader X fi nTerms rCode sumTTF sumDF dCount startFP idx)))
       OR (n AND 3) = n \<and>
     rootCode (fst (newFieldReader X fi nTerms rCode sumTTF sumDF dCount startFP idx)) = rCode"
  by (cases idx)
     (simp_all add: newFieldReader_def set_rootBlockFP_def set_index_def
        BTT_OUTPUT_FLAGS_NUM_BITS_def word_split_flags)

theorem newFieldReader_rootBlockFP_witness:
  "ReadVLong exampleExternals [0x0d] 0 = ((13, None), 1) \<and>
   rootBlockFP (fst (newFieldReader exampleExternals bodyInfo 3 [0x0d] 3 3 3 0 None)) = 3 \<and>
   push_bit 2 (3 :: int64) OR (13 AND 3) = 13"
proof -
  have h: "ReadVLong exampleExternals [0x0d] 0 = ((13, None), 1)"
    by code_simp
  have d: "drop_bit 2 (13 :: int64) = 3"
    by code_simp
  from newFieldReader_rootBlockFP [OF h, of bodyInfo 3 3 3 3 0 None] h d
  show ?thesis by simp
qed

subsection \<open>New frames\<close>

text \<open>
  Claim C10: every frame that \<open>newFrame\<close> returns has a term state, the one
  \<open>NewTermState\<close> of the postings reader gave, with \<open>totalTermFreq\<close> set to -1.
\<close>

theorem newFrame_totalTermFreq:
  "newFrame own n = Inr f \<Longrightarrow> map_option totalTermFreq (state f) = Some (- 1)"
  by (auto simp: newFrame_def split: option.splits)

theorem newFrame_totalTermFreq_witness:
  "newFrame (Some (Iterator ownedBodyReader)) 0
     = Inr (projr (newFrame (Some (Iterator ownedBodyReader)) 0)) \<and>
   map_option totalTermFreq (state (projr (newFrame (Some (Iterator ownedBodyReader)) 0)))
     = Some (- 1)"
proof -
  have h: "newFrame (Some (Iterator ownedBodyReader)) 0
             = Inr (projr (newFrame (Some (Iterator ownedBodyReader)) 0))"
    by (simp add: newFrame_def Iterator_def newSegmentTermsEnum_def ownedBodyReader_def
          examplePostings_def)
  from newFrame_totalTermFreq [OF h] h show ?thesis by simp
qed

subsection \<open>Assignments to the reader\<close>

lemma setter_simps [simp]:
  "inp (set_inp i r) = i"
  "inp (set_postingsReader p r) = inp r"
  "inp (set_fields f r) = inp r"
  "inp (set_dirOffset d r) = inp r"
  "inp (set_indexDirOffset d r) = inp r"
  "inp (set_version v r) = inp r"
  "postingsReader (set_postingsReader p r) = p"
  "postingsReader (set_fields f r) = postingsReader r"
  "postingsReader (set_dirOffset d r) = postingsReader r"
  "postingsReader (set_indexDirOffset d r) = postingsReader r"
  "postingsReader (set_version v r) = postingsReader r"
  "BlockTreeTermsReader.fields (set_postingsReader p r) = BlockTreeTermsReader.fields r"
  "BlockTreeTermsReader.fields (set_fields f r) = f"
  "BlockTreeTermsReader.fields (set_dirOffset d r) = BlockTreeTermsReader.fields r"
  "BlockTreeTermsReader.fields (set_indexDirOffset d r) = BlockTreeTermsReader.fields r"
  "BlockTreeTermsReader.fields (set_version v r) = BlockTreeTermsReader.fields r"
  "dirOffset (set_postingsReader p r) = dirOffset r"
  "dirOffset (set_fields f r) = dirOffset r"
  "dirOffset (set_dirOffset d r) = d"
  "dirOffset (set_indexDirOffset d r) = dirOffset r"
  "dirOffset (set_version v r) = dirOffset r"
  "indexDirOffset (set_postingsReader p r) = indexDirOffset r"
  "indexDirOffset (set_fields f r) = indexDirOffset r"
  "indexDirOffset (set_dirOffset d r) = indexDirOffset r"
  "indexDirOffset (set_indexDirOffset d r) = d"
  "indexDirOffset (set_version v r) = indexDirOffset r"
  "version (set_postingsReader p r) = version r"
  "version (set_fields f r) = version r"
  "version (set_dirOffset d r) = version r"
  "version (set_indexDirOffset d r) = version r"
  "version (set_version v r) = v"
  by (simp_all add: set_inp_def set_postingsReader_def set_fields_def set_dirOffset_def
        set_indexDirOffset_def set_version_def)



lemma readHeader_keeps:
  "readHeader X input r H = (res, r', H') \<Longrightarrow>
     BlockTreeTermsReader.fields r' = BlockTreeTermsReader.fields r \<and> inp r' = inp r \<and>
     version r' = version r \<and> postingsReader r' = postingsReader r"
  by (auto simp: readHeader_def split: prod.splits option.splits if_splits)

lemma readIndexHeader_keeps:
  "readIndexHeader X input r H = (res, r', H') \<Longrightarrow>
     BlockTreeTermsReader.fields r' = BlockTreeTermsReader.fields r \<and> inp r' = inp r \<and>
     version r' = version r \<and> postingsReader r' = postingsReader r"
  by (auto simp: readIndexHeader_def split: prod.splits option.splits if_splits)

subsection \<open>The directory offset\<close>

text \<open>
  Claim C5: the directory offset is found in one of two ways. \<open>readHeader\<close>: when the
  header's version is before the append-only version, the offset is read by \<open>ReadLong\<close>
  right after the header and stored in \<open>dirOffset\<close>; from the append-only version on
  nothing more is read. \<open>seekDir\<close>: for a reader before the append-only version the input
  is sought to the offset it is given; from the append-only version on the input is
  sought to its length minus 8, an offset is read there by \<open>ReadLong\<close>, and the input is
  sought to that offset. A seek leaves the input at the offset sought.
\<close>

theorem directory_offset_two_paths:
  "(readWith (CheckHeader X BTT_CODEC_NAME BTT_VERSION_START BTT_VERSION_CURRENT) input H
        = ((v, None), H1) \<and>
      sint v < BTT_VERSION_APPEND_ONLY \<and> readWith (ReadLong X) input H1 = ((off, err), H2)
    \<longrightarrow> readHeader X input r H = ((sint v, err), set_dirOffset off r, H2)) \<and>
   (readWith (CheckHeader X BTT_CODEC_NAME BTT_VERSION_START BTT_VERSION_CURRENT) input H
        = ((v, None), H1) \<and>
      BTT_VERSION_APPEND_ONLY \<le> sint v
    \<longrightarrow> readHeader X input r H = ((sint v, None), r, H1)) \<and>
   (version r < BTT_VERSION_APPEND_ONLY
    \<longrightarrow> seekDir X r input dirOff H = (None, Seek input dirOff H)) \<and>
   (BTT_VERSION_APPEND_ONLY \<le> version r \<and>
      readWith (ReadLong X) input (Seek input (Length input H - 8) H) = ((off', None), H3)
    \<longrightarrow> seekDir X r input dirOff H = (None, Seek input off' H3)) \<and>
   (input < length H \<longrightarrow> pos (Seek input q H ! input) = q)"
  by (cases err)
     (simp_all add: readHeader_def seekDir_def asInt_def Seek_def BTT_VERSION_APPEND_ONLY_def
        BTT_INDEX_VERSION_APPEND_ONLY_def)

lemma old_header:
  "readWith (CheckHeader exampleExternals BTT_CODEC_NAME BTT_VERSION_START BTT_VERSION_CURRENT)
     0 (heapOf timFileOld)
   = ((0, None), [\<lparr>data = timFileOld, pos = 26, closed = False, closeResult = None\<rparr>])"
  by code_simp

lemma old_offset:
  "readWith (ReadLong exampleExternals) 0
     [\<lparr>data = timFileOld, pos = 26, closed = False, closeResult = None\<rparr>]
   = ((34, None), [\<lparr>data = timFileOld, pos = 34, closed = False, closeResult = None\<rparr>])"
  by code_simp

lemma new_header:
  "readWith (CheckHeader exampleExternals BTT_CODEC_NAME BTT_VERSION_START BTT_VERSION_CURRENT)
     0 (heapOf (timFile 3 3 3 3))
   = ((1, None), [\<lparr>data = timFile 3 3 3 3, pos = 26, closed = False, closeResult = None\<rparr>])"
  by code_simp

lemma new_footer:
  "readWith (ReadLong exampleExternals) 0
     (Seek 0 (Length 0 (heapOf (timFile 3 3 3 3)) - 8) (heapOf (timFile 3 3 3 3)))
   = ((26, None), [\<lparr>data = timFile 3 3 3 3, pos = 42, closed = False, closeResult = None\<rparr>])"
  by code_simp

theorem directory_offset_two_paths_witness:
  "readHeader exampleExternals 0 (exampleReader 0) (heapOf timFileOld)
     = ((0, None), set_dirOffset 34 (exampleReader 0),
        [\<lparr>data = timFileOld, pos = 34, closed = False, closeResult = None\<rparr>]) \<and>
   readHeader exampleExternals 0 (exampleReader 0) (heapOf (timFile 3 3 3 3))
     = ((1, None), exampleReader 0,
        [\<lparr>data = timFile 3 3 3 3, pos = 26, closed = False, closeResult = None\<rparr>]) \<and>
   seekDir exampleExternals (exampleReader 0) 0 34 (heapOf timFileOld)
     = (None, Seek 0 34 (heapOf timFileOld)) \<and>
   seekDir exampleExternals (exampleReader 1) 0 0 (heapOf (timFile 3 3 3 3))
     = (None, Seek 0 26
          [\<lparr>data = timFile 3 3 3 3, pos = 42, closed = False, closeResult = None\<rparr>]) \<and>
   pos (Seek 0 26 [\<lparr>data = timFile 3 3 3 3, pos = 42, closed = False, closeResult = None\<rparr>] ! 0)
     = 26"
proof -
  have v0: "version (exampleReader 0) < BTT_VERSION_APPEND_ONLY"
    and v1: "BTT_VERSION_APPEND_ONLY \<le> version (exampleReader 1)"
    and s0: "sint (0 :: int32) < BTT_VERSION_APPEND_ONLY"
    and s1: "BTT_VERSION_APPEND_ONLY \<le> sint (1 :: int32)"
    by (simp_all add: exampleReader_def BTT_VERSION_APPEND_ONLY_def)
  note T = directory_offset_two_paths
  have a: "readHeader exampleExternals 0 (exampleReader 0) (heapOf timFileOld)
     = ((0, None), set_dirOffset 34 (exampleReader 0),
        [\<lparr>data = timFileOld, pos = 34, closed = False, closeResult = None\<rparr>])"
    using T [where X = exampleExternals and input = 0 and H = "heapOf timFileOld" and v = 0
               and off = 34 and err = None and r = "exampleReader 0", THEN conjunct1]
      old_header old_offset s0 by simp
  have b: "readHeader exampleExternals 0 (exampleReader 0) (heapOf (timFile 3 3 3 3))
     = ((1, None), exampleReader 0,
        [\<lparr>data = timFile 3 3 3 3, pos = 26, closed = False, closeResult = None\<rparr>])"
    using T [where X = exampleExternals and input = 0 and H = "heapOf (timFile 3 3 3 3)" and v = 1
               and r = "exampleReader 0", THEN conjunct2, THEN conjunct1]
      new_header s1 by simp
  have c: "seekDir exampleExternals (exampleReader 0) 0 34 (heapOf timFileOld)
     = (None, Seek 0 34 (heapOf timFileOld))"
    using T [where r = "exampleReader 0", THEN conjunct2, THEN conjunct2, THEN conjunct1] v0
    by simp
  have d: "seekDir exampleExternals (exampleReader 1) 0 0 (heapOf (timFile 3 3 3 3))
     = (None, Seek 0 26
          [\<lparr>data = timFile 3 3 3 3, pos = 42, closed = False, closeResult = None\<rparr>])"
    using T [where r = "exampleReader 1" and X = exampleExternals and input = 0
               and H = "heapOf (timFile 3 3 3 3)" and off' = 26,
             THEN conjunct2, THEN conjunct2, THEN conjunct2, THEN conjunct1]
      v1 new_footer by simp
  have e: "pos (Seek 0 26
             [\<lparr>data = timFile 3 3 3 3, pos = 42, closed = False, closeResult = None\<rparr>] ! 0) = 26"
    using T [where input = 0 and q = 26
               and H = "[\<lparr>data = timFile 3 3 3 3, pos = 42, closed = False, closeResult = None\<rparr>]",
             THEN conjunct2, THEN conjunct2, THEN conjunct2, THEN conjunct2]
    by simp
  from a b c d e show ?thesis by blast
qed

subsection \<open>Files of different versions\<close>

text \<open>
  Claim C4: with index loading requested (\<open>indexDivisor\<close> not -1), when the primary
  header reads as version \<open>v\<close> and the index header as a different version \<open>iv\<close>, the
  part of the open under the \<open>defer\<close> ends with the error "mixmatched version files" of
  \<open>v\<close> and \<open>iv\<close> in the state the index header's read left: nothing of the directory has
  been read and the reader's field map is still empty. The open returns that error.
\<close>

theorem version_mismatch_before_fields:
  assumes "indexDivisor \<noteq> - 1"
    and "OpenInput dir (SegmentFileName X (segName info) sfx BTT_EXTENSION) H
           = ((Some h, None), H0)"
    and "readHeader X h (BlockTreeTermsReader (Some h) pr Map.empty 0 0 (segName info) 0) H0
           = ((v, None), r1, H1)"
    and "OpenInput dir (SegmentFileName X (segName info) sfx BTT_INDEX_EXTENSION) H1
           = ((Some ih, None), H2)"
    and "readIndexHeader X ih (set_version v r1) H2 = ((iv, None), r2, H3)"
    and "iv \<noteq> v"
  shows "openBody X dir fis info sfx indexDivisor h
           \<lparr>rd = BlockTreeTermsReader (Some h) pr Map.empty 0 0 (segName info) 0,
            indexIn = None, mem = H0\<rparr>
         = (Some (MixmatchedVersion v iv), \<lparr>rd = r2, indexIn = Some ih, mem = H3\<rparr>) \<and>
       BlockTreeTermsReader.fields r2 = Map.empty \<and>
       newBlockTreeTermsReader X dir fis info pr sfx indexDivisor H
         = ((Some (fst (CloseWhileSuppressingError (Some ih) r2 H3)),
             Some (MixmatchedVersion v iv)),
            snd (CloseWhileSuppressingError (Some ih) r2 H3))"
proof -
  have v2: "version r2 = v"
    using readIndexHeader_keeps [OF assms(5)] by simp
  have f2: "BlockTreeTermsReader.fields r2 = Map.empty"
    using readIndexHeader_keeps [OF assms(5)] readHeader_keeps [OF assms(3)] by simp
  have idx: "openIndex X dir info sfx indexDivisor
               \<lparr>rd = set_version v r1, indexIn = None, mem = H1\<rparr>
             = (Some (MixmatchedVersion v iv), \<lparr>rd = r2, indexIn = Some ih, mem = H3\<rparr>)"
    using assms(1,4,5,6) v2 by (simp add: openIndex_def)
  have body: "openBody X dir fis info sfx indexDivisor h
           \<lparr>rd = BlockTreeTermsReader (Some h) pr Map.empty 0 0 (segName info) 0,
            indexIn = None, mem = H0\<rparr>
         = (Some (MixmatchedVersion v iv), \<lparr>rd = r2, indexIn = Some ih, mem = H3\<rparr>)"
    using assms(3) idx by (simp add: openBody_def)
  have whole: "newBlockTreeTermsReader X dir fis info pr sfx indexDivisor H
         = ((Some (fst (CloseWhileSuppressingError (Some ih) r2 H3)),
             Some (MixmatchedVersion v iv)),
            snd (CloseWhileSuppressingError (Some ih) r2 H3))"
    using assms(2) body by (simp add: newBlockTreeTermsReader_def split: prod.splits)
  from body f2 whole show ?thesis by blast
qed

lemma example_tim_name:
  "SegmentFileName exampleExternals (segName exampleSegment) [] BTT_EXTENSION = ''_0.tim''"
  by code_simp

lemma example_tip_name:
  "SegmentFileName exampleExternals (segName exampleSegment) [] BTT_INDEX_EXTENSION = ''_0.tip''"
  by code_simp

lemma old_index_header:
  "readWith (CheckHeader exampleExternals BTT_INDEX_CODEC_NAME BTT_INDEX_VERSION_START
               BTT_INDEX_VERSION_CURRENT) (Suc 0)
     [\<lparr>data = timFile 3 3 3 3, pos = 26, closed = False, closeResult = None\<rparr>,
      \<lparr>data = tipFileOld, pos = 0, closed = False, closeResult = None\<rparr>]
   = ((0, None),
      [\<lparr>data = timFile 3 3 3 3, pos = 26, closed = False, closeResult = None\<rparr>,
       \<lparr>data = tipFileOld, pos = 27, closed = False, closeResult = None\<rparr>])"
  by code_simp

lemma old_index_offset:
  "readWith (ReadLong exampleExternals) (Suc 0)
      [\<lparr>data = timFile 3 3 3 3, pos = 26, closed = False, closeResult = None\<rparr>,
       \<lparr>data = tipFileOld, pos = 27, closed = False, closeResult = None\<rparr>]
   = ((35, None),
      [\<lparr>data = timFile 3 3 3 3, pos = 26, closed = False, closeResult = None\<rparr>,
       \<lparr>data = tipFileOld, pos = 35, closed = False, closeResult = None\<rparr>])"
  by code_simp

theorem version_mismatch_before_fields_witness:
  "fst (exampleOpen (timFile 3 3 3 3) tipFileOld 1)
     = (Some (BlockTreeTermsReader (Some 0)
                (Some (examplePostings\<lparr>postingsClosed := True\<rparr>)) Map.empty 0 35 ''_0'' 1),
        Some (MixmatchedVersion 1 0)) \<and>
   snd (exampleOpen (timFile 3 3 3 3) tipFileOld 1)
     = [\<lparr>data = timFile 3 3 3 3, pos = 26, closed = True, closeResult = None\<rparr>,
        \<lparr>data = tipFileOld, pos = 35, closed = True, closeResult = None\<rparr>]"
proof -
  let ?r0 = "BlockTreeTermsReader (Some 0) (Some examplePostings) Map.empty 0 0
               (segName exampleSegment) 0"
  let ?H1 = "[\<lparr>data = timFile 3 3 3 3, pos = 26, closed = False, closeResult = None\<rparr>]"
  let ?H3 = "[\<lparr>data = timFile 3 3 3 3, pos = 26, closed = False, closeResult = None\<rparr>,
              \<lparr>data = tipFileOld, pos = 35, closed = False, closeResult = None\<rparr>]"
  have a1: "(1 :: int) \<noteq> - 1" by simp
  have a2: "OpenInput (exampleDir (timFile 3 3 3 3) tipFileOld)
              (SegmentFileName exampleExternals (segName exampleSegment) [] BTT_EXTENSION) []
            = ((Some 0, None), heapOf (timFile 3 3 3 3))"
    by (simp add: example_tim_name OpenInput_def exampleDir_def heapOf_def)
  have a3: "readHeader exampleExternals 0 ?r0 (heapOf (timFile 3 3 3 3)) = ((1, None), ?r0, ?H1)"
    by (simp add: readHeader_def new_header asInt_def BTT_VERSION_APPEND_ONLY_def)
  have a4: "OpenInput (exampleDir (timFile 3 3 3 3) tipFileOld)
              (SegmentFileName exampleExternals (segName exampleSegment) [] BTT_INDEX_EXTENSION)
              ?H1
            = ((Some (Suc 0), None),
               [\<lparr>data = timFile 3 3 3 3, pos = 26, closed = False, closeResult = None\<rparr>,
                \<lparr>data = tipFileOld, pos = 0, closed = False, closeResult = None\<rparr>])"
    by (simp add: example_tip_name OpenInput_def exampleDir_def)
  have a5: "readIndexHeader exampleExternals (Suc 0) (set_version 1 ?r0)
              [\<lparr>data = timFile 3 3 3 3, pos = 26, closed = False, closeResult = None\<rparr>,
               \<lparr>data = tipFileOld, pos = 0, closed = False, closeResult = None\<rparr>]
            = ((0, None), set_indexDirOffset 35 (set_version 1 ?r0), ?H3)"
    by (simp add: readIndexHeader_def old_index_header old_index_offset asInt_def
          BTT_INDEX_VERSION_APPEND_ONLY_def)
  have a6: "(0 :: int) \<noteq> 1" by simp
  from version_mismatch_before_fields [OF a1 a2 a3 a4 a5 a6, of exampleInfos]
  have "newBlockTreeTermsReader exampleExternals (exampleDir (timFile 3 3 3 3) tipFileOld)
          exampleInfos exampleSegment (Some examplePostings) [] 1 []
        = ((Some (fst (CloseWhileSuppressingError (Some (Suc 0))
                         (set_indexDirOffset 35 (set_version 1 ?r0)) ?H3)),
            Some (MixmatchedVersion 1 0)),
           snd (CloseWhileSuppressingError (Some (Suc 0))
                  (set_indexDirOffset 35 (set_version 1 ?r0)) ?H3))"
    by blast
  then show ?thesis
    by (simp add: exampleOpen_def CloseWhileSuppressingError_def Close_def util_Close_def
          CloseInput_def ClosePostings_def set_indexDirOffset_def set_version_def
          set_fields_def set_postingsReader_def exampleSegment_def)
qed

subsection \<open>What the steps of the open sequence keep\<close>

lemma readWith_heap:
  "readWith dec k H = (res, H1) \<Longrightarrow>
     length H1 = length H \<and> (\<forall>j. j \<noteq> k \<longrightarrow> H1 ! j = H ! j)"
  by (auto simp: readWith_def split: prod.splits)

lemma seekDir_heap [simp]:
  "length (snd (seekDir X r k off H)) = length H"
  "j \<noteq> k \<Longrightarrow> snd (seekDir X r k off H) ! j = H ! j"
  by (auto simp: seekDir_def Seek_def readWith_def split: prod.splits option.splits if_splits)

lemma readHeader_heap:
  "readHeader X k r H = (res, r', H1) \<Longrightarrow>
     length H1 = length H \<and> (\<forall>j. j \<noteq> k \<longrightarrow> H1 ! j = H ! j)"
  by (auto simp: readHeader_def readWith_def split: prod.splits option.splits if_splits)

lemma readIndexHeader_heap:
  "readIndexHeader X k r H = (res, r', H1) \<Longrightarrow>
     length H1 = length H \<and> (\<forall>j. j \<noteq> k \<longrightarrow> H1 ! j = H ! j)"
  by (auto simp: readIndexHeader_def readWith_def split: prod.splits option.splits if_splits)

lemma keeps_refl: "keeps h L L"
  by (simp add: keeps_def)

lemma keeps_trans: "keeps h L L1 \<Longrightarrow> keeps h L1 L2 \<Longrightarrow> keeps h L L2"
  by (simp add: keeps_def)

lemma addField_keeps:
  "addField X d fi nT rc sttf sdf dc L = (e, L') \<Longrightarrow> keeps h L L'"
  by (auto simp: addField_def keeps_def split: prod.splits option.splits if_splits
        dest!: readWith_heap)

lemma readFieldStats_keeps:
  "readFieldStats X info d h fi nT rc L = (e, L') \<Longrightarrow> keeps h L L'"
  by (auto simp: readFieldStats_def keeps_def split: prod.splits option.splits if_splits
        dest!: readWith_heap addField_keeps [where h = h])

lemma readField_keeps:
  "readField X fis info d h L = (e, L') \<Longrightarrow> keeps h L L'"
  by (auto simp: readField_def keeps_def split: prod.splits option.splits if_splits
        dest!: readWith_heap readFieldStats_keeps)

lemma readFields_keeps:
  "readFields X fis info d h n L = (e, L') \<Longrightarrow> keeps h L L'"
proof (induction n arbitrary: L)
  case 0
  then show ?case by (simp add: keeps_refl)
next
  case (Suc n)
  show ?case
  proof (cases "readField X fis info d h L")
    case (Pair e1 L1)
    then have k1: "keeps h L L1" by (rule readField_keeps)
    show ?thesis
    proof (cases e1)
      case None
      with Pair Suc.prems have "readFields X fis info d h n L1 = (e, L')" by simp
      then have "keeps h L1 L'" by (rule Suc.IH)
      with k1 show ?thesis by (rule keeps_trans)
    next
      case (Some a)
      with Pair Suc.prems have "L' = L1" by simp
      with k1 show ?thesis by simp
    qed
  qed
qed

lemma readDirectory_keeps:
  "readDirectory X fis info d h L = (e, L') \<Longrightarrow> keeps h L L'"
  apply (auto simp: readDirectory_def keeps_def CloseInput_def
        split: prod.splits option.splits if_splits
        dest!: readWith_heap readFields_keeps)
  apply (metis nth_list_update_neq)
  done

lemma seekDirs_keeps:
  "seekDirs X d h L = (e, L') \<Longrightarrow> keeps h L L'"
  by (auto simp: seekDirs_def keeps_def split: prod.splits option.splits if_splits)


lemma readIndexHeader_both:
  "readIndexHeader X k r H = (res, r', H1) \<Longrightarrow>
     (BlockTreeTermsReader.fields r' = BlockTreeTermsReader.fields r \<and> inp r' = inp r \<and>
      version r' = version r \<and> postingsReader r' = postingsReader r) \<and>
     (length H1 = length H \<and> (\<forall>j. j \<noteq> k \<longrightarrow> H1 ! j = H ! j))"
  using readIndexHeader_keeps readIndexHeader_heap by blast

lemma keeps_tracks: "tracks h H0 L \<Longrightarrow> keeps h L L' \<Longrightarrow> tracks h H0 L'"
  by (auto simp: tracks_def keeps_def)

lemma openIndex_tracks:
  "tracks h H0 L \<Longrightarrow> indexIn L = None \<Longrightarrow> openIndex X dir info sfx d L = (e, L') \<Longrightarrow>
     tracks h H0 L'"
  by (auto simp: openIndex_def OpenInput_def tracks_def nth_append
        split: prod.splits option.splits if_splits
        dest!: readIndexHeader_both)

lemma openBody_tracks:
  assumes t: "tracks h H0 L" and i: "indexIn L = None"
    and b: "openBody X dir fis info sfx d h L = (e, L')"
  shows "tracks h H0 L'"
proof (cases "readHeader X h (rd L) (mem L)")
  case (fields res r1 H1)
  obtain v err where res: "res = (v, err)" by (cases res)
  let ?L1 = "L\<lparr>rd := set_version v r1, mem := H1\<rparr>"
  have t1: "tracks h H0 ?L1"
    using t readHeader_keeps [OF fields] readHeader_heap [OF fields]
    by (auto simp: tracks_def)
  show ?thesis
  proof (cases err)
    case (Some a)
    with b fields res have "L' = ?L1" by (simp add: openBody_def)
    with t1 show ?thesis by simp
  next
    case None
    obtain e2 L2 where o: "openIndex X dir info sfx d ?L1 = (e2, L2)"
      by (cases "openIndex X dir info sfx d ?L1")
    have t2: "tracks h H0 L2"
      using t1 i o by (auto intro: openIndex_tracks)
    show ?thesis
    proof (cases e2)
      case (Some a)
      with b fields res None o have "L' = L2" by (simp add: openBody_def)
      with t2 show ?thesis by simp
    next
      case e2: None
      show ?thesis
      proof (cases "postingsReader (rd L2)")
        case None
        with b fields res \<open>err = None\<close> o e2 have "L' = L2" by (simp add: openBody_def)
        with t2 show ?thesis by simp
      next
        case (Some pr)
        let ?L2 = "L2\<lparr>rd := set_postingsReader (Some (Init (Some h) pr)) (rd L2)\<rparr>"
        have t2': "tracks h H0 ?L2" using t2 by (simp add: tracks_def)
        obtain e3 L3 where s: "seekDirs X d h ?L2 = (e3, L3)"
          by (cases "seekDirs X d h ?L2")
        have t3: "tracks h H0 L3"
          using t2' seekDirs_keeps [OF s] by (rule keeps_tracks)
        show ?thesis
        proof (cases e3)
          case (Some a)
          with b fields res \<open>err = None\<close> o e2 \<open>postingsReader (rd L2) = Some pr\<close> s
          have "L' = L3" by (simp add: openBody_def)
          with t3 show ?thesis by simp
        next
          case None
          with b fields res \<open>err = None\<close> o e2 \<open>postingsReader (rd L2) = Some pr\<close> s
          have "readDirectory X fis info d h L3 = (e, L')" by (simp add: openBody_def)
          then have "keeps h L3 L'" by (rule readDirectory_keeps)
          with t3 show ?thesis by (rule keeps_tracks)
        qed
      qed
    qed
  qed
qed

lemma Close_tracks:
  assumes t: "tracks h H0 L"
    and c: "CloseWhileSuppressingError (indexIn L) (rd L) (mem L) = (r', H')"
  shows "length H' = length (mem L) \<and> (\<forall>k<h. H' ! k = H0 ! k) \<and>
         (\<forall>k. h \<le> k \<and> k < length H' \<longrightarrow> closed (H' ! k)) \<and>
         BlockTreeTermsReader.fields r' = Map.empty \<and> inp r' = Some h"
proof -
  have two: "\<And>k. h \<le> k \<Longrightarrow> k < Suc (Suc h) \<Longrightarrow> k = h \<or> k = Suc h" by arith
  from t c show ?thesis
    by (auto simp: tracks_def CloseWhileSuppressingError_def Close_def util_Close_def
          CloseInput_def nth_list_update le_less_Suc_eq
          split: prod.splits option.splits if_splits dest: two)
qed


lemma closed_from:
  assumes "length H \<le> length H'" and "\<forall>k<length H. H' ! k = H ! k"
    and "\<forall>k. length H \<le> k \<and> k < length H' \<longrightarrow> closed (H' ! k)"
  shows "take (length H) H' = H \<and> list_all closed (drop (length H) H')"
proof
  show "take (length H) H' = H"
    using assms(1,2) by (simp add: list_eq_iff_nth_eq)
  show "list_all closed (drop (length H) H')"
    using assms(1,3) by (simp add: list_all_length)
qed

text \<open>
  Claim C7: when the open fails, the inputs that existed before it are as they were and
  every input opened since is closed; a reader returned beside the error has an empty
  field map and a closed input. (The source returns the reader \<open>fp\<close> beside every error
  it returns: that reader is closed, not partially open.)
\<close>

theorem failed_open_closes_inputs:
  assumes "newBlockTreeTermsReader X dir fis info pr sfx d H = ((p, Some e), H')"
  shows "take (length H) H' = H \<and> list_all closed (drop (length H) H') \<and>
         (case p of
            None \<Rightarrow> True
          | Some r \<Rightarrow>
              BlockTreeTermsReader.fields r = Map.empty \<and>
              (case inp r of None \<Rightarrow> True | Some k \<Rightarrow> k < length H' \<and> closed (H' ! k)))"
proof (cases "dir (SegmentFileName X (segName info) sfx BTT_EXTENSION)")
  case None
  with assms show ?thesis
    by (auto simp: newBlockTreeTermsReader_def OpenInput_def)
next
  case (Some f)
  let ?h = "length H"
  let ?H0 = "H @ [\<lparr>data = content f, pos = 0, closed = False, closeResult = closeErr f\<rparr>]"
  let ?L0 = "\<lparr>rd = BlockTreeTermsReader (Some ?h) pr Map.empty 0 0 (segName info) 0,
             indexIn = None, mem = ?H0\<rparr>"
  obtain eo L where body: "openBody X dir fis info sfx d ?h ?L0 = (eo, L)"
    by (cases "openBody X dir fis info sfx d ?h ?L0")
  have t0: "tracks ?h H ?L0"
    by (simp add: tracks_def nth_append)
  have t: "tracks ?h H L"
    using t0 _ body by (rule openBody_tracks) simp
  obtain r' H1 where cl: "CloseWhileSuppressingError (indexIn L) (rd L) (mem L) = (r', H1)"
    by (cases "CloseWhileSuppressingError (indexIn L) (rd L) (mem L)")
  from assms Some body cl have eo: "eo = Some e" and H': "H' = H1"
    and p: "p = None \<or> p = Some r'"
    by (auto simp: newBlockTreeTermsReader_def OpenInput_def split: option.splits error.splits)
  note c = Close_tracks [OF t cl]
  have len: "?h < length H1"
    using c t by (auto simp: tracks_def)
  have "take ?h H1 = H \<and> list_all closed (drop ?h H1)"
    using c len by (intro closed_from) auto
  moreover have "BlockTreeTermsReader.fields r' = Map.empty \<and> inp r' = Some ?h \<and> closed (H1 ! ?h)"
    using c len by auto
  ultimately show ?thesis
    using p H' len by auto
qed

lemma failing_run:
  "snd (fst (exampleOpen (timFile 3 3 3 11) tipFile (- 1))) = Some (InvalidDocCount 11 10) \<and>
   length (snd (exampleOpen (timFile 3 3 3 11) tipFile (- 1))) = 1"
  by code_simp

theorem failed_open_closes_inputs_witness:
  "snd (fst (exampleOpen (timFile 3 3 3 11) tipFile (- 1))) = Some (InvalidDocCount 11 10) \<and>
   length (snd (exampleOpen (timFile 3 3 3 11) tipFile (- 1))) = 1 \<and>
   list_all closed (snd (exampleOpen (timFile 3 3 3 11) tipFile (- 1)))"
proof -
  let ?R = "exampleOpen (timFile 3 3 3 11) tipFile (- 1)"
  have run: "newBlockTreeTermsReader exampleExternals (exampleDir (timFile 3 3 3 11) tipFile)
               exampleInfos exampleSegment (Some examplePostings) [] (- 1) []
             = ((fst (fst ?R), Some (InvalidDocCount 11 10)), snd ?R)"
    using failing_run by (simp add: exampleOpen_def prod_eq_iff)
  from failed_open_closes_inputs [OF run] failing_run show ?thesis by simp
qed

subsection \<open>The count invariants\<close>

lemma allValid_mem [simp]: "allValid info (L\<lparr>mem := H\<rparr>) = allValid info L"
  by (simp add: allValid_def)

lemma allValid_rd: "BlockTreeTermsReader.fields (rd L') = BlockTreeTermsReader.fields (rd L) \<Longrightarrow>
    allValid info L' = allValid info L"
  by (simp add: allValid_def)

lemma checkCounts_None:
  "checkCounts info dc sdf sttf = None \<longleftrightarrow>
     0 \<le> sint dc \<and> sint dc \<le> sint (segDocCount info) \<and> sint dc \<le> sint sdf \<and>
     (sttf = - 1 \<or> sint sdf \<le> sint sttf)"
  by (auto simp: checkCounts_def sint_up_scast is_up)

lemma newFieldReader_counts:
  "newFieldReader X fi nT rc sttf sdf dc sfp idx = (fr, err) \<Longrightarrow>
     docCount fr = dc \<and> sumDocFreq fr = sdf \<and> sumTotalTermFreq fr = sttf \<and> numTerms fr = nT"
  by (auto simp: newFieldReader_def set_rootBlockFP_def set_index_def Let_def
        split: prod.splits option.splits)

lemma addField_fields:
  "addField X d fi nT rc sttf sdf dc L = (e, L') \<Longrightarrow>
     BlockTreeTermsReader.fields (rd L') = BlockTreeTermsReader.fields (rd L) \<or>
     (\<exists>fr. docCount fr = dc \<and> sumDocFreq fr = sdf \<and> sumTotalTermFreq fr = sttf \<and>
           BlockTreeTermsReader.fields (rd L') = (BlockTreeTermsReader.fields (rd L))(name fi \<mapsto> fr))"
  by (auto simp: addField_def split: prod.splits option.splits if_splits
        dest!: newFieldReader_counts)

lemma checked_counts:
  "checkCounts info (docCount fr) (sumDocFreq fr) (sumTotalTermFreq fr) = None \<Longrightarrow>
     countInvariants info fr"
  by (simp add: checkCounts_None countInvariants_def)

lemma addField_valid:
  assumes "addField X d fi nT rc sttf sdf dc L = (e, L')"
  shows "checkCounts info dc sdf sttf = None \<and> allValid info L \<longrightarrow> allValid info L'"
  using addField_fields [OF assms]
  by (auto simp: allValid_def split: if_splits intro: checked_counts)

lemma readFieldStats_valid:
  "readFieldStats X info d h fi nT rc L = (e, L') \<Longrightarrow> allValid info L \<longrightarrow> allValid info L'"
  by (auto simp: readFieldStats_def split: prod.splits option.splits if_splits
        dest!: addField_valid [where info = info])

lemma readField_valid:
  "readField X fis info d h L = (e, L') \<Longrightarrow> allValid info L \<longrightarrow> allValid info L'"
  by (auto simp: readField_def split: prod.splits option.splits if_splits
        dest!: readFieldStats_valid)

lemma readFields_valid:
  "readFields X fis info d h n L = (e, L') \<Longrightarrow> allValid info L \<longrightarrow> allValid info L'"
proof (induction n arbitrary: L)
  case 0
  then show ?case by simp
next
  case (Suc n)
  obtain e1 L1 where r: "readField X fis info d h L = (e1, L1)"
    by (cases "readField X fis info d h L")
  note v1 = readField_valid [OF r]
  show ?case
  proof (cases e1)
    case None
    with r Suc.prems have "readFields X fis info d h n L1 = (e, L')" by simp
    then have "allValid info L1 \<longrightarrow> allValid info L'" by (rule Suc.IH)
    with v1 show ?thesis by simp
  next
    case (Some a)
    with r Suc.prems have "L' = L1" by simp
    with v1 show ?thesis by simp
  qed
qed

lemma readDirectory_valid:
  "readDirectory X fis info d h L = (e, L') \<Longrightarrow> allValid info L \<longrightarrow> allValid info L'"
  by (auto simp: readDirectory_def split: prod.splits option.splits if_splits
        dest!: readFields_valid)

lemma seekDirs_rd: "seekDirs X d h L = (e, L') \<Longrightarrow> rd L' = rd L"
  by (auto simp: seekDirs_def split: option.splits if_splits)

lemma openIndex_fields:
  "openIndex X dir info sfx d L = (e, L') \<Longrightarrow>
     BlockTreeTermsReader.fields (rd L') = BlockTreeTermsReader.fields (rd L)"
  by (auto simp: openIndex_def split: prod.splits option.splits if_splits
        dest!: readIndexHeader_keeps)

lemma openBody_valid:
  assumes v: "allValid info L" and b: "openBody X dir fis info sfx d h L = (e, L')"
  shows "allValid info L'"
proof (cases "readHeader X h (rd L) (mem L)")
  case (fields res r1 H1)
  obtain v0 err where res: "res = (v0, err)" by (cases res)
  let ?L1 = "L\<lparr>rd := set_version v0 r1, mem := H1\<rparr>"
  have v1: "allValid info ?L1"
    using v readHeader_keeps [OF fields] by (simp add: allValid_def)
  show ?thesis
  proof (cases err)
    case (Some a)
    with b fields res have "L' = ?L1" by (simp add: openBody_def)
    with v1 show ?thesis by simp
  next
    case None
    obtain e2 L2 where o: "openIndex X dir info sfx d ?L1 = (e2, L2)"
      by (cases "openIndex X dir info sfx d ?L1")
    have v2: "allValid info L2"
      using v1 allValid_rd [OF openIndex_fields [OF o]] by simp
    show ?thesis
    proof (cases e2)
      case (Some a)
      with b fields res None o have "L' = L2" by (simp add: openBody_def)
      with v2 show ?thesis by simp
    next
      case e2: None
      show ?thesis
      proof (cases "postingsReader (rd L2)")
        case None
        with b fields res \<open>err = None\<close> o e2 have "L' = L2" by (simp add: openBody_def)
        with v2 show ?thesis by simp
      next
        case (Some pr)
        let ?L2 = "L2\<lparr>rd := set_postingsReader (Some (Init (Some h) pr)) (rd L2)\<rparr>"
        have v2': "allValid info ?L2" using v2 by (simp add: allValid_def)
        obtain e3 L3 where s: "seekDirs X d h ?L2 = (e3, L3)"
          by (cases "seekDirs X d h ?L2")
        have v3: "allValid info L3"
          using v2' seekDirs_rd [OF s] by (simp add: allValid_def)
        show ?thesis
        proof (cases e3)
          case (Some a)
          with b fields res \<open>err = None\<close> o e2 \<open>postingsReader (rd L2) = Some pr\<close> s
          have "L' = L3" by (simp add: openBody_def)
          with v3 show ?thesis by simp
        next
          case None
          with b fields res \<open>err = None\<close> o e2 \<open>postingsReader (rd L2) = Some pr\<close> s
          have "readDirectory X fis info d h L3 = (e, L')" by (simp add: openBody_def)
          from readDirectory_valid [OF this] v3 show ?thesis by simp
        qed
      qed
    qed
  qed
qed

lemma open_valid:
  assumes "newBlockTreeTermsReader X dir fis info pr sfx d H = ((Some r, None), H')"
    and "BlockTreeTermsReader.fields r nm = Some fr"
  shows "countInvariants info fr"
proof -
  from assms(1) obtain h H0 L where
    body: "openBody X dir fis info sfx d h
             \<lparr>rd = BlockTreeTermsReader (Some h) pr Map.empty 0 0 (segName info) 0,
              indexIn = None, mem = H0\<rparr> = (None, L)"
    and r: "r = rd L"
    by (auto simp: newBlockTreeTermsReader_def split: prod.splits option.splits error.splits)
  have "allValid info \<lparr>rd = BlockTreeTermsReader (Some h) pr Map.empty 0 0 (segName info) 0,
              indexIn = None, mem = H0\<rparr>"
    by (simp add: allValid_def)
  then have "allValid info L" using body by (rule openBody_valid)
  with r assms(2) show ?thesis by (simp add: allValid_def)
qed

lemma openIndex_postings:
  "openIndex X dir info sfx d L = (e, L') \<Longrightarrow> postingsReader (rd L') = postingsReader (rd L)"
  by (auto simp: openIndex_def split: prod.splits option.splits if_splits
        dest!: readIndexHeader_keeps)

lemma readField_violation:
  assumes "readWith (ReadVInt X) h (mem L) = ((field, None), Ha)"
    and "readWith (ReadVLong X) h Ha = ((nT, None), Hb)"
    and "readWith (ReadVInt X) h Hb = ((numBytes, None), Hc)"
    and "0 \<le> sint numBytes"
    and "readWith (ReadBytes X (nat (sint numBytes))) h Hc = ((rc, None), Hd)"
    and "(if indexOptions (byNumberAt fis field) = INDEX_OPT_DOCS_ONLY X then ((- 1, None), Hd)
          else readWith (ReadVLong X) h Hd) = ((sumTTF, None), He)"
    and "readWith (ReadVLong X) h He = ((sumDF, None), Hf)"
    and "readWith (ReadVInt X) h Hf = ((dCount, None), Hg)"
    and "checkCounts info dCount sumDF sumTTF = Some e"
  shows "readField X fis info d h L = (Some e, L\<lparr>mem := Hg\<rparr>)"
  using assms by (auto simp: readField_def readFieldStats_def split: if_splits)

lemma readFields_reach:
  "readFields X fis info d h k L = (None, Lk) \<Longrightarrow>
   readField X fis info d h Lk = (Some e, L') \<Longrightarrow> k < n \<Longrightarrow>
   readFields X fis info d h n L = (Some e, L')"
proof (induction k arbitrary: L n)
  case 0
  then obtain m where "n = Suc m" by (cases n) auto
  with 0 show ?case by simp
next
  case (Suc k)
  then obtain m where n: "n = Suc m" and km: "k < m" by (cases n) auto
  obtain e1 L1 where r: "readField X fis info d h L = (e1, L1)"
    by (cases "readField X fis info d h L")
  with Suc.prems(1) have e1: "e1 = None" and rest: "readFields X fis info d h k L1 = (None, Lk)"
    by (auto split: option.splits)
  from Suc.IH [OF rest Suc.prems(2) km] r e1 n show ?case by simp
qed

lemma violation_aborts_open:
  assumes o: "OpenInput dir (SegmentFileName X (segName info) sfx BTT_EXTENSION) H
                = ((Some h, None), Ho)"
    and hd: "readHeader X h (BlockTreeTermsReader (Some h) (Some p) Map.empty 0 0 (segName info) 0) Ho
                = ((v, None), ra, Hh)"
    and oi: "openIndex X dir info sfx d \<lparr>rd = set_version v ra, indexIn = None, mem = Hh\<rparr>
                = (None, Li)"
    and sd: "seekDirs X d h (Li\<lparr>rd := set_postingsReader (Some (Init (Some h) p)) (rd Li)\<rparr>)
                = (None, Ls)"
    and nf: "readWith (ReadVInt X) h (mem Ls) = ((numFields, None), Hn)"
    and k: "k < nat (sint numFields)"
    and rounds: "readFields X fis info d h k (Ls\<lparr>mem := Hn\<rparr>) = (None, Lk)"
    and round: "readField X fis info d h Lk = (Some e, Lk\<lparr>mem := Hg\<rparr>)"
    and e: "\<And>s. e \<noteq> Panic s"
  shows "newBlockTreeTermsReader X dir fis info (Some p) sfx d H
           = ((Some (fst (CloseWhileSuppressingError (indexIn Lk) (rd Lk) Hg)), Some e),
              snd (CloseWhileSuppressingError (indexIn Lk) (rd Lk) Hg))"
proof -
  have pr: "postingsReader (rd Li) = Some p"
    using openIndex_postings [OF oi] readHeader_keeps [OF hd] by simp
  have loop: "readFields X fis info d h (nat (sint numFields)) (Ls\<lparr>mem := Hn\<rparr>)
                = (Some e, Lk\<lparr>mem := Hg\<rparr>)"
    using rounds round k by (rule readFields_reach)
  have pos: "\<not> sint numFields < 0" using k by simp
  have dir: "readDirectory X fis info d h Ls = (Some e, Lk\<lparr>mem := Hg\<rparr>)"
    using nf pos loop by (simp add: readDirectory_def)
  have body: "openBody X dir fis info sfx d h
                \<lparr>rd = BlockTreeTermsReader (Some h) (Some p) Map.empty 0 0 (segName info) 0,
                 indexIn = None, mem = Ho\<rparr> = (Some e, Lk\<lparr>mem := Hg\<rparr>)"
    using hd oi pr sd dir by (simp add: openBody_def)
  show ?thesis
    using o body e by (cases e) (auto simp: newBlockTreeTermsReader_def split: prod.splits)
qed

text \<open>
  Claim C3: the three count invariants are checked for every field read from the
  directory, and a violation aborts the open. An open that succeeds has only entries
  whose counts satisfy them. And when the open, with a postings reader that is not
  \<open>nil\<close>, has opened the primary input, read its header, passed the index header, sought
  the directory, read the number of fields, finished \<open>k\<close> rounds of the loop without
  error and in the next round read the field number, the number of terms, the root code,
  \<open>sumTotalTermFreq\<close> (or set it to -1 for a field without frequencies), \<open>sumDocFreq\<close>
  and \<open>docCount\<close>, then the open returns, from the state that last read left and after
  the deferred close: for a \<open>docCount\<close> outside \<open>[0, info.docCount]\<close> the error
  "invalid docCount" of \<open>docCount\<close> and \<open>info.docCount\<close>; else for a \<open>sumDocFreq\<close> below
  \<open>docCount\<close> the error "invalid sumDocFreq" of the two; else for a \<open>sumTotalTermFreq\<close>
  that is not -1 and below \<open>sumDocFreq\<close> the error "invalid sumTotalTermFreq" of the two.
\<close>

theorem count_invariants_checked:
  "(newBlockTreeTermsReader X dir fis info pr sfx d H = ((Some r, None), H') \<and>
      BlockTreeTermsReader.fields r nm = Some fr
    \<longrightarrow> countInvariants info fr) \<and>
   (OpenInput dir (SegmentFileName X (segName info) sfx BTT_EXTENSION) H = ((Some h, None), Ho) \<longrightarrow>
    readHeader X h (BlockTreeTermsReader (Some h) (Some p) Map.empty 0 0 (segName info) 0) Ho
      = ((v, None), ra, Hh) \<longrightarrow>
    openIndex X dir info sfx d \<lparr>rd = set_version v ra, indexIn = None, mem = Hh\<rparr> = (None, Li) \<longrightarrow>
    seekDirs X d h (Li\<lparr>rd := set_postingsReader (Some (Init (Some h) p)) (rd Li)\<rparr>)
      = (None, Ls) \<longrightarrow>
    readWith (ReadVInt X) h (mem Ls) = ((numFields, None), Hn) \<longrightarrow>
    k < nat (sint numFields) \<longrightarrow>
    readFields X fis info d h k (Ls\<lparr>mem := Hn\<rparr>) = (None, Lk) \<longrightarrow>
    readWith (ReadVInt X) h (mem Lk) = ((field, None), Ha) \<longrightarrow>
    readWith (ReadVLong X) h Ha = ((nT, None), Hb) \<longrightarrow>
    readWith (ReadVInt X) h Hb = ((numBytes, None), Hc) \<longrightarrow>
    0 \<le> sint numBytes \<longrightarrow>
    readWith (ReadBytes X (nat (sint numBytes))) h Hc = ((rc, None), Hd) \<longrightarrow>
    (if indexOptions (byNumberAt fis field) = INDEX_OPT_DOCS_ONLY X then ((- 1, None), Hd)
     else readWith (ReadVLong X) h Hd) = ((sumTTF, None), He) \<longrightarrow>
    readWith (ReadVLong X) h He = ((sumDF, None), Hf) \<longrightarrow>
    readWith (ReadVInt X) h Hf = ((dCount, None), Hg) \<longrightarrow>
      (sint dCount < 0 \<or> sint (segDocCount info) < sint dCount
       \<longrightarrow> newBlockTreeTermsReader X dir fis info (Some p) sfx d H
             = ((Some (fst (CloseWhileSuppressingError (indexIn Lk) (rd Lk) Hg)),
                 Some (InvalidDocCount dCount (segDocCount info))),
                snd (CloseWhileSuppressingError (indexIn Lk) (rd Lk) Hg))) \<and>
      (0 \<le> sint dCount \<and> sint dCount \<le> sint (segDocCount info) \<and> sint sumDF < sint dCount
       \<longrightarrow> newBlockTreeTermsReader X dir fis info (Some p) sfx d H
             = ((Some (fst (CloseWhileSuppressingError (indexIn Lk) (rd Lk) Hg)),
                 Some (InvalidSumDocFreq sumDF dCount)),
                snd (CloseWhileSuppressingError (indexIn Lk) (rd Lk) Hg))) \<and>
      (0 \<le> sint dCount \<and> sint dCount \<le> sint (segDocCount info) \<and> sint dCount \<le> sint sumDF \<and>
         sumTTF \<noteq> - 1 \<and> sint sumTTF < sint sumDF
       \<longrightarrow> newBlockTreeTermsReader X dir fis info (Some p) sfx d H
             = ((Some (fst (CloseWhileSuppressingError (indexIn Lk) (rd Lk) Hg)),
                 Some (InvalidSumTotalTermFreq sumTTF sumDF)),
                snd (CloseWhileSuppressingError (indexIn Lk) (rd Lk) Hg))))"
proof (intro conjI impI)
  assume "newBlockTreeTermsReader X dir fis info pr sfx d H = ((Some r, None), H') \<and>
            BlockTreeTermsReader.fields r nm = Some fr"
  then show "countInvariants info fr" using open_valid by blast
next
  assume o: "OpenInput dir (SegmentFileName X (segName info) sfx BTT_EXTENSION) H
                = ((Some h, None), Ho)"
    and hd: "readHeader X h (BlockTreeTermsReader (Some h) (Some p) Map.empty 0 0 (segName info) 0) Ho
                = ((v, None), ra, Hh)"
    and oi: "openIndex X dir info sfx d \<lparr>rd = set_version v ra, indexIn = None, mem = Hh\<rparr>
                = (None, Li)"
    and sd: "seekDirs X d h (Li\<lparr>rd := set_postingsReader (Some (Init (Some h) p)) (rd Li)\<rparr>)
                = (None, Ls)"
    and nf: "readWith (ReadVInt X) h (mem Ls) = ((numFields, None), Hn)"
    and k: "k < nat (sint numFields)"
    and rounds: "readFields X fis info d h k (Ls\<lparr>mem := Hn\<rparr>) = (None, Lk)"
    and r1: "readWith (ReadVInt X) h (mem Lk) = ((field, None), Ha)"
    and r2: "readWith (ReadVLong X) h Ha = ((nT, None), Hb)"
    and r3: "readWith (ReadVInt X) h Hb = ((numBytes, None), Hc)"
    and nb: "0 \<le> sint numBytes"
    and r4: "readWith (ReadBytes X (nat (sint numBytes))) h Hc = ((rc, None), Hd)"
    and r5: "(if indexOptions (byNumberAt fis field) = INDEX_OPT_DOCS_ONLY X then ((- 1, None), Hd)
              else readWith (ReadVLong X) h Hd) = ((sumTTF, None), He)"
    and r6: "readWith (ReadVLong X) h He = ((sumDF, None), Hf)"
    and r7: "readWith (ReadVInt X) h Hf = ((dCount, None), Hg)"
  note round = readField_violation [OF r1 r2 r3 nb r4 r5 r6 r7]
  note abort = violation_aborts_open [OF o hd oi sd nf k rounds]
  {
    assume "sint dCount < 0 \<or> sint (segDocCount info) < sint dCount"
    then have "checkCounts info dCount sumDF sumTTF
                 = Some (InvalidDocCount dCount (segDocCount info))"
      by (auto simp: checkCounts_def)
    from abort [OF round [OF this]]
    show "newBlockTreeTermsReader X dir fis info (Some p) sfx d H
             = ((Some (fst (CloseWhileSuppressingError (indexIn Lk) (rd Lk) Hg)),
                 Some (InvalidDocCount dCount (segDocCount info))),
                snd (CloseWhileSuppressingError (indexIn Lk) (rd Lk) Hg))"
      by simp
  next
    assume "0 \<le> sint dCount \<and> sint dCount \<le> sint (segDocCount info) \<and> sint sumDF < sint dCount"
    then have "checkCounts info dCount sumDF sumTTF = Some (InvalidSumDocFreq sumDF dCount)"
      by (auto simp: checkCounts_def sint_up_scast is_up)
    from abort [OF round [OF this]]
    show "newBlockTreeTermsReader X dir fis info (Some p) sfx d H
             = ((Some (fst (CloseWhileSuppressingError (indexIn Lk) (rd Lk) Hg)),
                 Some (InvalidSumDocFreq sumDF dCount)),
                snd (CloseWhileSuppressingError (indexIn Lk) (rd Lk) Hg))"
      by simp
  next
    assume "0 \<le> sint dCount \<and> sint dCount \<le> sint (segDocCount info) \<and> sint dCount \<le> sint sumDF \<and>
         sumTTF \<noteq> - 1 \<and> sint sumTTF < sint sumDF"
    then have "checkCounts info dCount sumDF sumTTF
                 = Some (InvalidSumTotalTermFreq sumTTF sumDF)"
      by (auto simp: checkCounts_def sint_up_scast is_up)
    from abort [OF round [OF this]]
    show "newBlockTreeTermsReader X dir fis info (Some p) sfx d H
             = ((Some (fst (CloseWhileSuppressingError (indexIn Lk) (rd Lk) Hg)),
                 Some (InvalidSumTotalTermFreq sumTTF sumDF)),
                snd (CloseWhileSuppressingError (indexIn Lk) (rd Lk) Hg))"
      by simp
  }
qed

lemma good_run:
  "Option.is_none (fst (fst (exampleOpen (timFile 3 3 3 3) tipFile (- 1)))) = False \<and>
   snd (fst (exampleOpen (timFile 3 3 3 3) tipFile (- 1))) = None \<and>
   Option.is_none (BlockTreeTermsReader.fields
      (the (fst (fst (exampleOpen (timFile 3 3 3 3) tipFile (- 1))))) ''body'') = False"
  by code_simp

lemma path_reads:
  "readWith (CheckHeader exampleExternals BTT_CODEC_NAME BTT_VERSION_START BTT_VERSION_CURRENT)
     0 (heapAt (timFile 3 3 3 11) 0) = ((1, None), heapAt (timFile 3 3 3 11) 26)"
  "readWith (ReadLong exampleExternals) 0
     (Seek 0 (Length 0 (heapAt (timFile 3 3 3 11) 26) - 8) (heapAt (timFile 3 3 3 11) 26))
     = ((26, None), heapAt (timFile 3 3 3 11) 42)"
  "readWith (ReadVInt exampleExternals) 0 (heapAt (timFile 3 3 3 11) 26) = ((1, None), heapAt (timFile 3 3 3 11) 27)"
  "readWith (ReadVInt exampleExternals) 0 (heapAt (timFile 3 3 3 11) 27) = ((0, None), heapAt (timFile 3 3 3 11) 28)"
  "readWith (ReadVLong exampleExternals) 0 (heapAt (timFile 3 3 3 11) 28) = ((3, None), heapAt (timFile 3 3 3 11) 29)"
  "readWith (ReadVInt exampleExternals) 0 (heapAt (timFile 3 3 3 11) 29) = ((1, None), heapAt (timFile 3 3 3 11) 30)"
  "readWith (ReadBytes exampleExternals (Suc 0)) 0 (heapAt (timFile 3 3 3 11) 30)
     = (([0x0d], None), heapAt (timFile 3 3 3 11) 31)"
  "readWith (ReadVLong exampleExternals) 0 (heapAt (timFile 3 3 3 11) 31) = ((3, None), heapAt (timFile 3 3 3 11) 32)"
  "readWith (ReadVLong exampleExternals) 0 (heapAt (timFile 3 3 3 11) 32) = ((3, None), heapAt (timFile 3 3 3 11) 33)"
  "readWith (ReadVInt exampleExternals) 0 (heapAt (timFile 3 3 3 11) 33) = ((11, None), heapAt (timFile 3 3 3 11) 34)"
  "readWith (CheckHeader exampleExternals BTT_CODEC_NAME BTT_VERSION_START BTT_VERSION_CURRENT)
     0 (heapAt (timFile 3 3 2 3) 0) = ((1, None), heapAt (timFile 3 3 2 3) 26)"
  "readWith (ReadLong exampleExternals) 0
     (Seek 0 (Length 0 (heapAt (timFile 3 3 2 3) 26) - 8) (heapAt (timFile 3 3 2 3) 26))
     = ((26, None), heapAt (timFile 3 3 2 3) 42)"
  "readWith (ReadVInt exampleExternals) 0 (heapAt (timFile 3 3 2 3) 26) = ((1, None), heapAt (timFile 3 3 2 3) 27)"
  "readWith (ReadVInt exampleExternals) 0 (heapAt (timFile 3 3 2 3) 27) = ((0, None), heapAt (timFile 3 3 2 3) 28)"
  "readWith (ReadVLong exampleExternals) 0 (heapAt (timFile 3 3 2 3) 28) = ((3, None), heapAt (timFile 3 3 2 3) 29)"
  "readWith (ReadVInt exampleExternals) 0 (heapAt (timFile 3 3 2 3) 29) = ((1, None), heapAt (timFile 3 3 2 3) 30)"
  "readWith (ReadBytes exampleExternals (Suc 0)) 0 (heapAt (timFile 3 3 2 3) 30)
     = (([0x0d], None), heapAt (timFile 3 3 2 3) 31)"
  "readWith (ReadVLong exampleExternals) 0 (heapAt (timFile 3 3 2 3) 31) = ((3, None), heapAt (timFile 3 3 2 3) 32)"
  "readWith (ReadVLong exampleExternals) 0 (heapAt (timFile 3 3 2 3) 32) = ((2, None), heapAt (timFile 3 3 2 3) 33)"
  "readWith (ReadVInt exampleExternals) 0 (heapAt (timFile 3 3 2 3) 33) = ((3, None), heapAt (timFile 3 3 2 3) 34)"
  "readWith (CheckHeader exampleExternals BTT_CODEC_NAME BTT_VERSION_START BTT_VERSION_CURRENT)
     0 (heapAt (timFile 3 2 3 3) 0) = ((1, None), heapAt (timFile 3 2 3 3) 26)"
  "readWith (ReadLong exampleExternals) 0
     (Seek 0 (Length 0 (heapAt (timFile 3 2 3 3) 26) - 8) (heapAt (timFile 3 2 3 3) 26))
     = ((26, None), heapAt (timFile 3 2 3 3) 42)"
  "readWith (ReadVInt exampleExternals) 0 (heapAt (timFile 3 2 3 3) 26) = ((1, None), heapAt (timFile 3 2 3 3) 27)"
  "readWith (ReadVInt exampleExternals) 0 (heapAt (timFile 3 2 3 3) 27) = ((0, None), heapAt (timFile 3 2 3 3) 28)"
  "readWith (ReadVLong exampleExternals) 0 (heapAt (timFile 3 2 3 3) 28) = ((3, None), heapAt (timFile 3 2 3 3) 29)"
  "readWith (ReadVInt exampleExternals) 0 (heapAt (timFile 3 2 3 3) 29) = ((1, None), heapAt (timFile 3 2 3 3) 30)"
  "readWith (ReadBytes exampleExternals (Suc 0)) 0 (heapAt (timFile 3 2 3 3) 30)
     = (([0x0d], None), heapAt (timFile 3 2 3 3) 31)"
  "readWith (ReadVLong exampleExternals) 0 (heapAt (timFile 3 2 3 3) 31) = ((2, None), heapAt (timFile 3 2 3 3) 32)"
  "readWith (ReadVLong exampleExternals) 0 (heapAt (timFile 3 2 3 3) 32) = ((3, None), heapAt (timFile 3 2 3 3) 33)"
  "readWith (ReadVInt exampleExternals) 0 (heapAt (timFile 3 2 3 3) 33) = ((3, None), heapAt (timFile 3 2 3 3) 34)"
  by code_simp+

lemma body_has_freqs: "indexOptions bodyInfo \<noteq> INDEX_OPT_DOCS_ONLY exampleExternals"
  by (simp add: bodyInfo_def exampleExternals_def)

lemma example_body: "byNumberAt exampleInfos 0 = bodyInfo"
  by (simp add: byNumberAt_def exampleInfos_def)

lemma seek_heapAt: "Seek 0 q (heapAt bs q') = heapAt bs q"
  by (simp add: Seek_def heapAt_def)

theorem count_invariants_checked_witness:
  "countInvariants exampleSegment
     (the (BlockTreeTermsReader.fields
        (the (fst (fst (exampleOpen (timFile 3 3 3 3) tipFile (- 1))))) ''body'')) \<and>
   snd (fst (exampleOpen (timFile 3 3 3 11) tipFile (- 1))) = Some (InvalidDocCount 11 10) \<and>
   snd (fst (exampleOpen (timFile 3 3 2 3) tipFile (- 1))) = Some (InvalidSumDocFreq 2 3) \<and>
   snd (fst (exampleOpen (timFile 3 2 3 3) tipFile (- 1))) = Some (InvalidSumTotalTermFreq 2 3)"
proof -
  let ?R = "exampleOpen (timFile 3 3 3 3) tipFile (- 1)"
  let ?r0 = "BlockTreeTermsReader (Some 0) (Some examplePostings) Map.empty 0 0
               (segName exampleSegment) 0"
  let ?r1 = "set_postingsReader (Some (Init (Some 0) examplePostings)) (set_version 1 ?r0)"
  note T = count_invariants_checked
  have run: "newBlockTreeTermsReader exampleExternals (exampleDir (timFile 3 3 3 3) tipFile)
               exampleInfos exampleSegment (Some examplePostings) [] (- 1) []
             = ((Some (the (fst (fst ?R))), None), snd ?R)"
    using good_run by (auto simp: exampleOpen_def prod_eq_iff Option.is_none_def)
  have entry: "BlockTreeTermsReader.fields (the (fst (fst ?R))) ''body''
        = Some (the (BlockTreeTermsReader.fields (the (fst (fst ?R))) ''body''))"
    using good_run by (auto simp: Option.is_none_def)
  have g: "countInvariants exampleSegment
             (the (BlockTreeTermsReader.fields (the (fst (fst ?R))) ''body''))"
    using T [THEN conjunct1, rule_format, OF conjI, OF run entry] .
  have a: "snd (fst (exampleOpen (timFile 3 3 3 11) tipFile (- 1))) = Some (InvalidDocCount 11 10)"
    using T [where X = exampleExternals and dir = "exampleDir (timFile 3 3 3 11) tipFile" and fis = exampleInfos
          and info = exampleSegment and p = examplePostings and sfx = "[]" and d = "- 1"
          and H = "[]" and h = 0 and Ho = "heapAt (timFile 3 3 3 11) 0" and v = 1 and ra = "?r0"
          and Hh = "heapAt (timFile 3 3 3 11) 26"
          and Li = "\<lparr>rd = set_version 1 ?r0, indexIn = None, mem = heapAt (timFile 3 3 3 11) 26\<rparr>"
          and Ls = "\<lparr>rd = ?r1, indexIn = None, mem = heapAt (timFile 3 3 3 11) 26\<rparr>"
          and numFields = 1 and Hn = "heapAt (timFile 3 3 3 11) 27" and k = 0
          and Lk = "\<lparr>rd = ?r1, indexIn = None, mem = heapAt (timFile 3 3 3 11) 27\<rparr>"
          and field = 0 and Ha = "heapAt (timFile 3 3 3 11) 28" and nT = 3 and Hb = "heapAt (timFile 3 3 3 11) 29"
          and numBytes = 1 and Hc = "heapAt (timFile 3 3 3 11) 30" and rc = "[0x0d]"
          and Hd = "heapAt (timFile 3 3 3 11) 31" and sumTTF = 3 and He = "heapAt (timFile 3 3 3 11) 32"
          and sumDF = 3 and Hf = "heapAt (timFile 3 3 3 11) 33" and dCount = 11
          and Hg = "heapAt (timFile 3 3 3 11) 34",
        THEN conjunct2]
      path_reads example_tim_name body_has_freqs example_body
    by (simp add: exampleOpen_def OpenInput_def exampleDir_def heapAt_def [of _ 0, symmetric]
          readHeader_def asInt_def BTT_VERSION_APPEND_ONLY_def openIndex_def
          seekDirs_def seekDir_def BTT_INDEX_VERSION_APPEND_ONLY_def seek_heapAt
          exampleSegment_def)
  have b: "snd (fst (exampleOpen (timFile 3 3 2 3) tipFile (- 1))) = Some (InvalidSumDocFreq 2 3)"
    using T [where X = exampleExternals and dir = "exampleDir (timFile 3 3 2 3) tipFile" and fis = exampleInfos
          and info = exampleSegment and p = examplePostings and sfx = "[]" and d = "- 1"
          and H = "[]" and h = 0 and Ho = "heapAt (timFile 3 3 2 3) 0" and v = 1 and ra = "?r0"
          and Hh = "heapAt (timFile 3 3 2 3) 26"
          and Li = "\<lparr>rd = set_version 1 ?r0, indexIn = None, mem = heapAt (timFile 3 3 2 3) 26\<rparr>"
          and Ls = "\<lparr>rd = ?r1, indexIn = None, mem = heapAt (timFile 3 3 2 3) 26\<rparr>"
          and numFields = 1 and Hn = "heapAt (timFile 3 3 2 3) 27" and k = 0
          and Lk = "\<lparr>rd = ?r1, indexIn = None, mem = heapAt (timFile 3 3 2 3) 27\<rparr>"
          and field = 0 and Ha = "heapAt (timFile 3 3 2 3) 28" and nT = 3 and Hb = "heapAt (timFile 3 3 2 3) 29"
          and numBytes = 1 and Hc = "heapAt (timFile 3 3 2 3) 30" and rc = "[0x0d]"
          and Hd = "heapAt (timFile 3 3 2 3) 31" and sumTTF = 3 and He = "heapAt (timFile 3 3 2 3) 32"
          and sumDF = 2 and Hf = "heapAt (timFile 3 3 2 3) 33" and dCount = 3
          and Hg = "heapAt (timFile 3 3 2 3) 34",
        THEN conjunct2]
      path_reads example_tim_name body_has_freqs example_body
    by (simp add: exampleOpen_def OpenInput_def exampleDir_def heapAt_def [of _ 0, symmetric]
          readHeader_def asInt_def BTT_VERSION_APPEND_ONLY_def openIndex_def
          seekDirs_def seekDir_def BTT_INDEX_VERSION_APPEND_ONLY_def seek_heapAt
          exampleSegment_def)
  have c: "snd (fst (exampleOpen (timFile 3 2 3 3) tipFile (- 1))) = Some (InvalidSumTotalTermFreq 2 3)"
    using T [where X = exampleExternals and dir = "exampleDir (timFile 3 2 3 3) tipFile" and fis = exampleInfos
          and info = exampleSegment and p = examplePostings and sfx = "[]" and d = "- 1"
          and H = "[]" and h = 0 and Ho = "heapAt (timFile 3 2 3 3) 0" and v = 1 and ra = "?r0"
          and Hh = "heapAt (timFile 3 2 3 3) 26"
          and Li = "\<lparr>rd = set_version 1 ?r0, indexIn = None, mem = heapAt (timFile 3 2 3 3) 26\<rparr>"
          and Ls = "\<lparr>rd = ?r1, indexIn = None, mem = heapAt (timFile 3 2 3 3) 26\<rparr>"
          and numFields = 1 and Hn = "heapAt (timFile 3 2 3 3) 27" and k = 0
          and Lk = "\<lparr>rd = ?r1, indexIn = None, mem = heapAt (timFile 3 2 3 3) 27\<rparr>"
          and field = 0 and Ha = "heapAt (timFile 3 2 3 3) 28" and nT = 3 and Hb = "heapAt (timFile 3 2 3 3) 29"
          and numBytes = 1 and Hc = "heapAt (timFile 3 2 3 3) 30" and rc = "[0x0d]"
          and Hd = "heapAt (timFile 3 2 3 3) 31" and sumTTF = 2 and He = "heapAt (timFile 3 2 3 3) 32"
          and sumDF = 3 and Hf = "heapAt (timFile 3 2 3 3) 33" and dCount = 3
          and Hg = "heapAt (timFile 3 2 3 3) 34",
        THEN conjunct2]
      path_reads example_tim_name body_has_freqs example_body
    by (simp add: exampleOpen_def OpenInput_def exampleDir_def heapAt_def [of _ 0, symmetric]
          readHeader_def asInt_def BTT_VERSION_APPEND_ONLY_def openIndex_def
          seekDirs_def seekDir_def BTT_INDEX_VERSION_APPEND_ONLY_def seek_heapAt
          exampleSegment_def)
  from g a b c show ?thesis by simp
qed

end
